theory Spec2Isabelle
  imports Main "HOL-Library.Sublist" "HOL-Library.AList"
begin

section \<open>Configuration (config.js)\<close>

text \<open>
  The \<^verbatim>\<open>rateLimit\<close> block of \<^verbatim>\<open>config\<close>. Each field is
  \<^verbatim>\<open>parseInt(process.env.X) || default\<close>, so it is an integer; the defaults are
  60000, 30 and 300000.
\<close>

record rateLimitConfig =
  windowMs :: int
  maxRequests :: int
  blockDurationMs :: int

definition defaultRateLimit :: rateLimitConfig where
  "defaultRateLimit = \<lparr>windowMs = 60000, maxRequests = 30, blockDurationMs = 300000\<rparr>"

text \<open>\<^verbatim>\<open>Math.ceil(ms / 1000)\<close> on an integer number of milliseconds.\<close>

definition ceilSeconds :: "int \<Rightarrow> int" where
  "ceilSeconds ms = - ((- ms) div 1000)"

section \<open>Errors\<close>

text \<open>
  Every \<^verbatim>\<open>throw\<close> of the sources is a constructor, named after its throw site; a
  JavaScript \<^verbatim>\<open>Error\<close> carries only its message, given by \<open>message\<close> below.
\<close>

datatype error =
    RedisNotInitialized
  | StoreError string
  | RateLimitExceeded "int option"
  | InvalidPhoneNumber
  | EmptyMessage
  | GatewayError string
  | TypeError string
  | JobApiError string
  | QueueError string
  | NonRetryable string

section \<open>The state store (Redis, through ioredis)\<close>

text \<open>
  Per identifier the limiter uses two keys: the sorted set
  \<^verbatim>\<open>rate_limit:sms:<identifier>\<close> and the string key
  \<^verbatim>\<open>rate_limit:block:<identifier>\<close>. The two prefixes differ, so the keys of two
  identifiers never coincide, and the store is modelled as one \<open>window\<close> per identifier.

  A sorted set maps members to scores. The member written by the limiter is
  \<^verbatim>\<open>`${now}-${Math.random()}`\<close>, modelled as the pair of the timestamp and the value
  drawn. A key with an expiry carries its deadline in milliseconds; the store's clock is
  the clock that \<^verbatim>\<open>Date.now()\<close> reads.
\<close>

type_synonym member = "int \<times> nat"

record window =
  events :: "(member \<times> int) list"
  eventsExpiry :: "int option"
  blockExpiry :: "int option"

definition emptyWindow :: window where
  "emptyWindow = \<lparr>events = [], eventsExpiry = None, blockExpiry = None\<rparr>"

text \<open>A key is gone once the clock has passed its deadline.\<close>

definition expired :: "int \<Rightarrow> int option \<Rightarrow> bool" where
  "expired now deadline = (case deadline of None \<Rightarrow> False | Some e \<Rightarrow> e < now)"

text \<open>
  \<^verbatim>\<open>TTL key\<close>: \<open>-2\<close> for a key that does not exist, otherwise the remaining life in
  seconds. Redis computes the reply from the remaining milliseconds as
  \<^verbatim>\<open>(ttl + 500) / 1000\<close>, that is rounded to the nearest second. The block key is only
  ever written by \<^verbatim>\<open>SETEX\<close>, so it always has a deadline.
\<close>

definition ttl :: "int \<Rightarrow> int option \<Rightarrow> int" where
  "ttl now deadline =
     (case deadline of
        None \<Rightarrow> - 2
      | Some e \<Rightarrow> if e < now then - 2 else (e - now + 500) div 1000)"

text \<open>The content of the sorted set as a command issued at \<open>now\<close> sees it.\<close>

definition liveEvents :: "int \<Rightarrow> window \<Rightarrow> (member \<times> int) list" where
  "liveEvents now w = (if expired now (eventsExpiry w) then [] else events w)"

text \<open>
  \<^verbatim>\<open>ZREMRANGEBYSCORE key lo hi\<close> removes the members whose score lies in \<open>[lo, hi]\<close>;
  a sorted set left empty is deleted together with its expiry.
\<close>

definition zremrangebyscore :: "int \<Rightarrow> int \<Rightarrow> int \<Rightarrow> window \<Rightarrow> window" where
  "zremrangebyscore now lo hi w =
     (let kept = filter (\<lambda>(m, s). \<not> (lo \<le> s \<and> s \<le> hi)) (liveEvents now w)
      in w\<lparr>events := kept, eventsExpiry := (if kept = [] then None else eventsExpiry w)\<rparr>)"

definition zcard :: "int \<Rightarrow> window \<Rightarrow> int" where
  "zcard now w = int (length (liveEvents now w))"

text \<open>
  \<^verbatim>\<open>ZRANGE key 0 0 WITHSCORES\<close> replies with the member of lowest score and that score,
  or with the empty array. The limiter reads only the score (\<^verbatim>\<open>oldestRequest[1]\<close>),
  so the model returns the lowest score, if any.
\<close>

definition zrangeFirstScore :: "int \<Rightarrow> window \<Rightarrow> int option" where
  "zrangeFirstScore now w =
     (case liveEvents now w of [] \<Rightarrow> None | e # es \<Rightarrow> Some (fold min (map snd es) (snd e)))"

text \<open>
  \<^verbatim>\<open>ZADD key score member\<close> adds the member or, when it is already present, updates
  its score. A key that had expired starts afresh, without a deadline.
\<close>

definition zadd :: "int \<Rightarrow> int \<Rightarrow> member \<Rightarrow> window \<Rightarrow> window" where
  "zadd now score m w =
     w\<lparr>events := AList.update m score (liveEvents now w),
       eventsExpiry := (if liveEvents now w = [] then None else eventsExpiry w)\<rparr>"

text \<open>
  \<^verbatim>\<open>EXPIRE key seconds\<close> sets the deadline of an existing key; a non-positive number
  of seconds deletes the key.
\<close>

definition expire :: "int \<Rightarrow> int \<Rightarrow> window \<Rightarrow> window" where
  "expire now secs w =
     (if liveEvents now w = [] then w
      else if secs \<le> 0 then w\<lparr>events := [], eventsExpiry := None\<rparr>
      else w\<lparr>eventsExpiry := Some (now + secs * 1000)\<rparr>)"

text \<open>
  \<^verbatim>\<open>SETEX key seconds value\<close> stores the value with a deadline; Redis rejects a
  non-positive number of seconds.
\<close>

definition setex :: "int \<Rightarrow> int \<Rightarrow> window \<Rightarrow> error + window" where
  "setex now secs w =
     (if secs \<le> 0 then Inl (StoreError ''ERR invalid expire time in setex command'')
      else Inr (w\<lparr>blockExpiry := Some (now + secs * 1000)\<rparr>))"

text \<open>
  One entry of the delivery log: the object that \<^verbatim>\<open>logSMSDelivery\<close> serialises with
  \<^verbatim>\<open>JSON.stringify\<close> and pushes on the list.
\<close>

record gatewayRecipient =
  messageId :: string
  recipientStatus :: string
  cost :: string

record logEntry =
  timestamp :: string
  logTo :: "string option"
  logMessage :: string
  logStatus :: string
  apiResponse :: "gatewayRecipient list option"
  logError :: "string option"

text \<open>
  The client of redis.js and the data behind it: \<open>initialized\<close> is the flag that
  \<^verbatim>\<open>getClient()\<close> tests, \<open>deliveryLogs\<close> is the list \<^verbatim>\<open>sms_delivery_logs\<close>, and
  \<open>dailyLogs\<close> maps a date to the list \<^verbatim>\<open>sms_logs:<date>\<close> and its deadline.
\<close>

record redis =
  initialized :: bool
  windows :: "string \<Rightarrow> window"
  deliveryLogs :: "logEntry list"
  dailyLogs :: "string \<Rightarrow> logEntry list \<times> int option"

text \<open>
  A store command may reject (the connection is down, a command times out). The
  commands of one call are numbered in the order they are issued, from 0; \<open>failAt\<close>
  names the command that rejects, if any.
\<close>

definition storeDown :: error where
  "storeDown = StoreError ''Connection is closed.''"

section \<open>RateLimiter (rateLimiter.js)\<close>

record decision =
  allowed :: bool
  remaining :: int
  resetTime :: int
  blocked :: bool
  blockDuration :: "int option"

text \<open>
  The body of the \<^verbatim>\<open>try\<close> block of \<^verbatim>\<open>isAllowed\<close>: the value returned or the
  error thrown, and the identifier's keys as the commands issued so far have left them.
\<close>

definition isAllowed_try ::
  "rateLimitConfig \<Rightarrow> nat option \<Rightarrow> int \<Rightarrow> nat \<Rightarrow> window \<Rightarrow> (error + decision) \<times> window" where
  "isAllowed_try cfg failAt now rnd w =
     (let windowStart = now - windowMs cfg in
      if failAt = Some 0 then (Inl storeDown, w) else
      let blockTtl = ttl now (blockExpiry w) in
      if blockTtl > 0 then
        (Inr \<lparr>allowed = False, remaining = 0, resetTime = now + blockTtl * 1000,
              blocked = True, blockDuration = Some (blockTtl * 1000)\<rparr>, w)
      else if failAt = Some 1 then (Inl storeDown, w) else
      let w1 = zremrangebyscore now 0 windowStart w in
      if failAt = Some 2 then (Inl storeDown, w1) else
      let currentRequests = zcard now w1 in
      if currentRequests \<ge> maxRequests cfg then
        (if failAt = Some 3 then (Inl storeDown, w1) else
         case setex now (ceilSeconds (blockDurationMs cfg)) w1 of
           Inl e \<Rightarrow> (Inl e, w1)
         | Inr w2 \<Rightarrow>
             if failAt = Some 4 then (Inl storeDown, w2) else
             let reset = (case zrangeFirstScore now w2 of
                            Some oldest \<Rightarrow> oldest + windowMs cfg
                          | None \<Rightarrow> now + windowMs cfg)
             in (Inr \<lparr>allowed = False, remaining = 0, resetTime = reset,
                      blocked = True, blockDuration = Some (blockDurationMs cfg)\<rparr>, w2))
      else if failAt = Some 3 then (Inl storeDown, w1) else
      let w2 = zadd now now (now, rnd) w1 in
      if failAt = Some 4 then (Inl storeDown, w2) else
      let w3 = expire now (ceilSeconds (windowMs cfg)) w2 in
      (Inr \<lparr>allowed = True, remaining = maxRequests cfg - (currentRequests + 1),
            resetTime = now + windowMs cfg, blocked = False, blockDuration = None\<rparr>, w3))"

text \<open>The value returned by the \<^verbatim>\<open>catch\<close> block of \<^verbatim>\<open>isAllowed\<close>.\<close>

definition failOpen :: "rateLimitConfig \<Rightarrow> int \<Rightarrow> decision" where
  "failOpen cfg now =
     \<lparr>allowed = True, remaining = maxRequests cfg - 1, resetTime = now + windowMs cfg,
      blocked = False, blockDuration = None\<rparr>"

text \<open>
  \<^verbatim>\<open>isAllowed(identifier)\<close>. \<^verbatim>\<open>getClient()\<close> is called before the \<^verbatim>\<open>try\<close>, so
  its error leaves the function; an error inside the \<^verbatim>\<open>try\<close> is caught.
\<close>

definition isAllowed ::
  "rateLimitConfig \<Rightarrow> nat option \<Rightarrow> int \<Rightarrow> nat \<Rightarrow> string \<Rightarrow> redis \<Rightarrow> (error + decision) \<times> redis" where
  "isAllowed cfg failAt now rnd identifier st =
     (if \<not> initialized st then (Inl RedisNotInitialized, st)
      else case isAllowed_try cfg failAt now rnd (windows st identifier) of
             (Inl e, w') \<Rightarrow> (Inr (failOpen cfg now), st\<lparr>windows := (windows st)(identifier := w')\<rparr>)
           | (Inr d, w') \<Rightarrow> (Inr d, st\<lparr>windows := (windows st)(identifier := w')\<rparr>))"

text \<open>The \<^verbatim>\<open>try\<close> block of \<^verbatim>\<open>getStatus\<close>.\<close>

definition getStatus_try ::
  "rateLimitConfig \<Rightarrow> nat option \<Rightarrow> int \<Rightarrow> window \<Rightarrow> (error + decision) \<times> window" where
  "getStatus_try cfg failAt now w =
     (let windowStart = now - windowMs cfg in
      if failAt = Some 0 then (Inl storeDown, w) else
      let blockTtl = ttl now (blockExpiry w) in
      if blockTtl > 0 then
        (Inr \<lparr>allowed = False, remaining = 0, resetTime = now + blockTtl * 1000,
              blocked = True, blockDuration = Some (blockTtl * 1000)\<rparr>, w)
      else if failAt = Some 1 then (Inl storeDown, w) else
      let w1 = zremrangebyscore now 0 windowStart w in
      if failAt = Some 2 then (Inl storeDown, w1) else
      let currentRequests = zcard now w1;
          left = max 0 (maxRequests cfg - currentRequests)
      in (Inr \<lparr>allowed = (left > 0), remaining = left, resetTime = now + windowMs cfg,
               blocked = False, blockDuration = None\<rparr>, w1))"

definition getStatus ::
  "rateLimitConfig \<Rightarrow> nat option \<Rightarrow> int \<Rightarrow> string \<Rightarrow> redis \<Rightarrow> (error + decision) \<times> redis" where
  "getStatus cfg failAt now identifier st =
     (if \<not> initialized st then (Inl RedisNotInitialized, st)
      else case getStatus_try cfg failAt now (windows st identifier) of
             (Inl e, w') \<Rightarrow>
               (Inr \<lparr>allowed = True, remaining = maxRequests cfg, resetTime = now + windowMs cfg,
                     blocked = False, blockDuration = None\<rparr>,
                st\<lparr>windows := (windows st)(identifier := w')\<rparr>)
           | (Inr d, w') \<Rightarrow> (Inr d, st\<lparr>windows := (windows st)(identifier := w')\<rparr>))"

text \<open>A sequence of \<^verbatim>\<open>isAllowed\<close> calls for one identifier, the store answering each command.\<close>

fun isAllowed_seq ::
  "rateLimitConfig \<Rightarrow> string \<Rightarrow> (int \<times> nat) list \<Rightarrow> redis \<Rightarrow> (error + decision) list \<times> redis" where
  "isAllowed_seq cfg identifier [] st = ([], st)"
| "isAllowed_seq cfg identifier ((now, rnd) # calls) st =
     (case isAllowed cfg None now rnd identifier st of
        (d, st') \<Rightarrow> (case isAllowed_seq cfg identifier calls st' of
                      (ds, st'') \<Rightarrow> (d # ds, st'')))"

definition admitted :: "error + decision \<Rightarrow> bool" where
  "admitted r = (case r of Inl _ \<Rightarrow> False | Inr d \<Rightarrow> allowed d)"

definition rejectedBlocked :: "error + decision \<Rightarrow> bool" where
  "rejectedBlocked r = (case r of Inl _ \<Rightarrow> False | Inr d \<Rightarrow> \<not> allowed d \<and> blocked d)"

section \<open>SMSService (smsService.js)\<close>

text \<open>
  A JavaScript string is modelled by the list of its code units, taken below 256.
  A property that may be missing from an object (\<^verbatim>\<open>undefined\<close>) is an \<open>option\<close>.
\<close>

definition isDigit :: "char \<Rightarrow> bool" where
  "isDigit c = (c \<in> set ''0123456789'')"

text \<open>
  \<^verbatim>\<open>/^\+[1-9]\d{1,14}$/.test(phoneNumber)\<close>: a plus sign, one digit from 1 to 9, then
  between 1 and 14 digits, and nothing else.
\<close>

definition isValidPhoneNumber :: "string \<Rightarrow> bool" where
  "isValidPhoneNumber phoneNumber =
     (case phoneNumber of
        c0 # c1 # rest \<Rightarrow>
          c0 = CHR ''+'' \<and> c1 \<in> set ''123456789'' \<and>
          1 \<le> length rest \<and> length rest \<le> 14 \<and> list_all isDigit rest
      | _ \<Rightarrow> False)"

text \<open>\<^verbatim>\<open>RegExp.prototype.test\<close> converts its argument to a string first.\<close>

definition toText :: "string option \<Rightarrow> string" where
  "toText v = (case v of None \<Rightarrow> ''undefined'' | Some s \<Rightarrow> s)"

text \<open>The white space and line terminators that \<^verbatim>\<open>String.prototype.trim\<close> strips.\<close>

definition isSpace :: "char \<Rightarrow> bool" where
  "isSpace c = (c \<in> {CHR 0x09, CHR 0x0A, CHR 0x0B, CHR 0x0C, CHR 0x0D, CHR 0x20, CHR 0xA0})"

definition trim :: "string \<Rightarrow> string" where
  "trim s = rev (dropWhile isSpace (rev (dropWhile isSpace s)))"

text \<open>The decimal text of an integer, as a template literal prints it.\<close>

fun showNat :: "nat \<Rightarrow> string" where
  "showNat n = (if n < 10 then [''0123456789'' ! n]
                else showNat (n div 10) @ [''0123456789'' ! (n mod 10)])"

definition showInt :: "int \<Rightarrow> string" where
  "showInt k = (if k < 0 then CHR ''-'' # showNat (nat (- k)) else showNat (nat k))"

text \<open>\<^verbatim>\<open>error.message\<close>.\<close>

fun message :: "error \<Rightarrow> string" where
  "message RedisNotInitialized = ''Redis client not initialized. Call connect() first.''"
| "message (StoreError m) = m"
| "message (RateLimitExceeded duration) =
     ''Rate limit exceeded. Blocked for '' @
     (case duration of None \<Rightarrow> ''NaN'' | Some ms \<Rightarrow> showInt (ceilSeconds ms)) @ '' seconds''"
| "message InvalidPhoneNumber = ''Invalid phone number format''"
| "message EmptyMessage = ''Message cannot be empty''"
| "message (GatewayError m) = m"
| "message (TypeError m) = m"
| "message (JobApiError m) = m"
| "message (QueueError m) = m"
| "message (NonRetryable m) = ''Non-retryable error: '' @ m"

text \<open>
  The gateway client (\<^verbatim>\<open>africastalking\<close>) is outside the repository: \<^verbatim>\<open>SMS.send\<close>
  either rejects with an error or resolves to the recipients of
  \<^verbatim>\<open>SMSMessageData.Recipients\<close>. It is a parameter of the model, a function of the
  recipient and the trimmed message.
\<close>

datatype gatewayReply = GatewayFailure string | GatewayResult "gatewayRecipient list"

type_synonym gateway = "string \<Rightarrow> string \<Rightarrow> gatewayReply"

text \<open>
  What one call reads from outside: the clock, the random number, the ISO text of
  the date, and which store command, if any, rejects in the limiter and in the logger.
  Every reading of the clock within one call gives the same value.
\<close>

record callEnv =
  clock :: int
  random :: nat
  isoTime :: string
  limiterFault :: "nat option"
  logFault :: "nat option"

text \<open>The store together with the messages handed to the gateway so far.\<close>

record world =
  store :: redis
  outbox :: "(string \<times> string) list"

text \<open>\<^verbatim>\<open>LPUSH\<close> on a list key with a deadline; a key that had expired starts afresh.\<close>

definition lpush :: "int \<Rightarrow> logEntry \<Rightarrow> logEntry list \<times> int option \<Rightarrow> logEntry list \<times> int option" where
  "lpush now entry l =
     (if expired now (snd l) \<or> fst l = [] then ([entry], None) else (entry # fst l, snd l))"

text \<open>
  \<^verbatim>\<open>logSMSDelivery(to, message, status, apiResponse, error)\<close>. The call of
  \<^verbatim>\<open>getClient()\<close> is outside the \<^verbatim>\<open>try\<close>; every error inside it is swallowed,
  also the \<^verbatim>\<open>TypeError\<close> of \<^verbatim>\<open>message.substring\<close> on a missing message.
\<close>

definition logSMSDelivery ::
  "nat option \<Rightarrow> int \<Rightarrow> string \<Rightarrow> string option \<Rightarrow> string option \<Rightarrow> string \<Rightarrow>
   gatewayRecipient list option \<Rightarrow> string option \<Rightarrow> redis \<Rightarrow> error option \<times> redis" where
  "logSMSDelivery failAt now stamp recipient msg status response err st =
     (if \<not> initialized st then (Some RedisNotInitialized, st)
      else case msg of
        None \<Rightarrow> (None, st)
      | Some body \<Rightarrow>
          let entry = \<lparr>timestamp = stamp, logTo = recipient,
                       logMessage = take 100 body @ (if length body > 100 then ''...'' else []),
                       logStatus = status, apiResponse = response, logError = err\<rparr> in
          if failAt = Some 0 then (None, st) else
          let st1 = st\<lparr>deliveryLogs := entry # deliveryLogs st\<rparr> in
          if failAt = Some 1 then (None, st1) else
          let st2 = st1\<lparr>deliveryLogs := take 1000 (deliveryLogs st1)\<rparr>;
              today = takeWhile (\<lambda>c. c \<noteq> CHR ''T'') stamp in
          if failAt = Some 2 then (None, st2) else
          let st3 = st2\<lparr>dailyLogs := (dailyLogs st2)(today := lpush now entry (dailyLogs st2 today))\<rparr> in
          if failAt = Some 3 then (None, st3) else
          (None, st3\<lparr>dailyLogs := (dailyLogs st3)
                      (today := (fst (dailyLogs st3 today), Some (now + 86400 * 7 * 1000)))\<rparr>))"

record smsResult =
  resultMessageId :: string
  resultStatus :: string
  resultCost :: string
  rateRemaining :: int
  rateResetTime :: int

text \<open>
  The \<^verbatim>\<open>try\<close> block of \<^verbatim>\<open>sendSMS\<close>. The warning for a message longer than 160
  characters only writes to the console and is left out.
\<close>

definition sendSMS_try ::
  "rateLimitConfig \<Rightarrow> gateway \<Rightarrow> callEnv \<Rightarrow> string option \<Rightarrow> string option \<Rightarrow> string \<Rightarrow> world \<Rightarrow>
   (error + smsResult) \<times> world" where
  "sendSMS_try cfg gw env recipient msg identifier wld =
     (case isAllowed cfg (limiterFault env) (clock env) (random env) identifier (store wld) of
        (Inl e, st1) \<Rightarrow> (Inl e, wld\<lparr>store := st1\<rparr>)
      | (Inr rateLimitResult, st1) \<Rightarrow>
          (let wld1 = wld\<lparr>store := st1\<rparr> in
           if \<not> allowed rateLimitResult then
             (Inl (RateLimitExceeded (blockDuration rateLimitResult)), wld1)
           else if \<not> isValidPhoneNumber (toText recipient) then (Inl InvalidPhoneNumber, wld1)
           else if msg = None \<or> msg = Some [] \<or> trim (toText msg) = [] then (Inl EmptyMessage, wld1)
           else
             (let wld2 = wld1\<lparr>outbox := outbox wld1 @ [(toText recipient, trim (toText msg))]\<rparr> in
              (case gw (toText recipient) (trim (toText msg)) of
                 GatewayFailure m \<Rightarrow> (Inl (GatewayError m), wld2)
               | GatewayResult recipients \<Rightarrow>
                   (case logSMSDelivery (logFault env) (clock env) (isoTime env) recipient msg
                           ''success'' (Some recipients) None (store wld2) of
                      (Some e, st3) \<Rightarrow> (Inl e, wld2\<lparr>store := st3\<rparr>)
                    | (None, st3) \<Rightarrow>
                        (case recipients of
                           [] \<Rightarrow> (Inl (TypeError ''Cannot read properties of undefined (reading 'messageId')''),
                                  wld2\<lparr>store := st3\<rparr>)
                         | r # rs \<Rightarrow>
                             (Inr \<lparr>resultMessageId = messageId r, resultStatus = recipientStatus r,
                                   resultCost = cost r,
                                   rateRemaining = remaining rateLimitResult,
                                   rateResetTime = resetTime rateLimitResult\<rparr>,
                              wld2\<lparr>store := st3\<rparr>)))))))"

text \<open>
  \<^verbatim>\<open>sendSMS({ to, message, identifier })\<close>: the \<^verbatim>\<open>catch\<close> block logs the failed
  attempt and throws the error again.
\<close>

definition sendSMS ::
  "rateLimitConfig \<Rightarrow> gateway \<Rightarrow> callEnv \<Rightarrow> string option \<Rightarrow> string option \<Rightarrow> string \<Rightarrow> world \<Rightarrow>
   (error + smsResult) \<times> world" where
  "sendSMS cfg gw env recipient msg identifier wld =
     (case sendSMS_try cfg gw env recipient msg identifier wld of
        (Inr result, wld') \<Rightarrow> (Inr result, wld')
      | (Inl e, wld') \<Rightarrow>
          (case logSMSDelivery (logFault env) (clock env) (isoTime env) recipient msg
                  ''failed'' None (Some (message e)) (store wld') of
             (Some e', st') \<Rightarrow> (Inl e', wld'\<lparr>store := st'\<rparr>)
           | (None, st') \<Rightarrow> (Inl e, wld'\<lparr>store := st'\<rparr>)))"

section \<open>QueueProcessor (queueProcessor.js)\<close>

text \<open>The \<^verbatim>\<open>retry\<close> block of \<^verbatim>\<open>config\<close>; the defaults are 3, exponential and 2000.\<close>

record retryConfig =
  maxAttempts :: int
  backoffType :: string
  retryDelay :: int

definition defaultRetry :: retryConfig where
  "defaultRetry = \<lparr>maxAttempts = 3, backoffType = ''exponential'', retryDelay = 2000\<rparr>"

text \<open>The data of a job: the object given to \<^verbatim>\<open>queue.add\<close>, read back as \<^verbatim>\<open>job.data\<close>.\<close>

record smsData =
  dataTo :: "string option"
  dataMessage :: "string option"
  dataIdentifier :: "string option"
  dataPriority :: "int option"
  dataMetadata :: "(string \<times> string) list option"

definition nonRetryableErrors :: "string list" where
  "nonRetryableErrors =
     [''Rate limit exceeded'', ''Invalid phone number format'', ''Message cannot be empty'',
      ''Non-retryable error'']"

text \<open>
  \<^verbatim>\<open>shouldRetry(error)\<close>: \<^verbatim>\<open>String.prototype.includes\<close> is the test for a contiguous
  substring.
\<close>

definition shouldRetry :: "error \<Rightarrow> bool" where
  "shouldRetry e = (\<not> list_ex (\<lambda>nonRetryableError. sublist nonRetryableError (message e)) nonRetryableErrors)"

text \<open>
  \<^verbatim>\<open>job.updateProgress\<close> and \<^verbatim>\<open>job.addResult\<close> belong to the job object of the queue
  library, outside the repository. Each is a parameter: the message of the error it
  throws, if it throws.
\<close>

record jobApi =
  updateProgressError :: "string option"
  addResultError :: "string option"

text \<open>The pair of calls \<^verbatim>\<open>await job.updateProgress(..); await job.addResult(..)\<close>.\<close>

definition recordOutcome :: "jobApi \<Rightarrow> error option" where
  "recordOutcome api =
     (case updateProgressError api of
        Some m \<Rightarrow> Some (JobApiError m)
      | None \<Rightarrow> (case addResultError api of Some m \<Rightarrow> Some (JobApiError m) | None \<Rightarrow> None))"

text \<open>The error that leaves the \<^verbatim>\<open>catch\<close> block of \<^verbatim>\<open>processSMSJob\<close>.\<close>

definition processSMSJob_catch :: "jobApi \<Rightarrow> error \<Rightarrow> error" where
  "processSMSJob_catch api e =
     (case recordOutcome api of
        Some e' \<Rightarrow> e'
      | None \<Rightarrow> if shouldRetry e then e else NonRetryable (message e))"

definition processSMSJob ::
  "rateLimitConfig \<Rightarrow> gateway \<Rightarrow> callEnv \<Rightarrow> jobApi \<Rightarrow> smsData \<Rightarrow> world \<Rightarrow> (error + smsResult) \<times> world" where
  "processSMSJob cfg gw env api d wld =
     (case sendSMS cfg gw env (dataTo d) (dataMessage d)
             (case dataIdentifier d of None \<Rightarrow> ''default'' | Some i \<Rightarrow> i) wld of
        (Inr result, wld') \<Rightarrow>
          (case recordOutcome api of
             None \<Rightarrow> (Inr result, wld')
           | Some e \<Rightarrow> (Inl (processSMSJob_catch api e), wld'))
      | (Inl e, wld') \<Rightarrow> (Inl (processSMSJob_catch api e), wld'))"

text \<open>
  The queue of the queue library: the jobs added so far, in the order they were added.
  \<^verbatim>\<open>queue.add\<close> may reject; \<open>faults\<close> gives, for the number of earlier calls of
  \<^verbatim>\<open>queue.add\<close>, the message of the error of this call, if it rejects.
\<close>

record jobOptions =
  attempts :: int
  backoff :: "string \<times> int"
  removeOnComplete :: nat
  removeOnFail :: nat
  jobPriority :: int
  jobDelay :: int
  jobIdentifier :: "string option"

record addOptions =
  optPriority :: "int option"
  optDelay :: "int option"
  optIdentifier :: "string option"

record job =
  jobId :: nat
  jobName :: string
  jobData :: smsData
  jobOpts :: jobOptions

record queueState =
  jobs :: "job list"
  nextId :: nat
  addCalls :: nat

type_synonym queueFaults = "nat \<Rightarrow> string option"

definition queueAdd ::
  "queueFaults \<Rightarrow> string \<Rightarrow> smsData \<Rightarrow> jobOptions \<Rightarrow> queueState \<Rightarrow> (error + job) \<times> queueState" where
  "queueAdd faults name d opts q =
     (case faults (addCalls q) of
        Some m \<Rightarrow> (Inl (QueueError m), q\<lparr>addCalls := Suc (addCalls q)\<rparr>)
      | None \<Rightarrow>
          (let j = \<lparr>jobId = nextId q, jobName = name, jobData = d, jobOpts = opts\<rparr>
           in (Inr j, q\<lparr>jobs := jobs q @ [j], nextId := Suc (nextId q),
                        addCalls := Suc (addCalls q)\<rparr>)))"

text \<open>
  \<^verbatim>\<open>addSMSJob(smsData, options)\<close>: the options object is spread last, so its keys win.
\<close>

definition addSMSJob ::
  "queueFaults \<Rightarrow> retryConfig \<Rightarrow> smsData \<Rightarrow> addOptions \<Rightarrow> queueState \<Rightarrow> (error + job) \<times> queueState" where
  "addSMSJob faults rcfg d options q =
     queueAdd faults ''send-sms'' d
       \<lparr>attempts = maxAttempts rcfg, backoff = (backoffType rcfg, retryDelay rcfg),
        removeOnComplete = 100, removeOnFail = 50,
        jobPriority = (case optPriority options of None \<Rightarrow> 0 | Some p \<Rightarrow> p),
        jobDelay = (case optDelay options of None \<Rightarrow> 0 | Some dl \<Rightarrow> dl),
        jobIdentifier = optIdentifier options\<rparr> q"

record bulkResult =
  resultData :: smsData
  resultJobId :: "nat option"
  resultError :: "string option"
  success :: bool

fun addBulkSMSJobs ::
  "queueFaults \<Rightarrow> retryConfig \<Rightarrow> smsData list \<Rightarrow> addOptions \<Rightarrow> queueState \<Rightarrow> bulkResult list \<times> queueState" where
  "addBulkSMSJobs faults rcfg [] options q = ([], q)"
| "addBulkSMSJobs faults rcfg (d # ds) options q =
     (case addSMSJob faults rcfg d options q of
        (Inr j, q') \<Rightarrow>
          (case addBulkSMSJobs faults rcfg ds options q' of
             (rs, q'') \<Rightarrow>
               (\<lparr>resultData = d, resultJobId = Some (jobId j), resultError = None, success = True\<rparr> # rs,
                q''))
      | (Inl e, q') \<Rightarrow>
          (case addBulkSMSJobs faults rcfg ds options q' of
             (rs, q'') \<Rightarrow>
               (\<lparr>resultData = d, resultJobId = None, resultError = Some (message e), success = False\<rparr> # rs,
                q'')))"

section \<open>APIRouter (api.js)\<close>

text \<open>\<^verbatim>\<open>!v\<close> for a property that is missing or a string.\<close>

definition falsy :: "string option \<Rightarrow> bool" where
  "falsy v = (v = None \<or> v = Some [])"

record sendRequest =
  reqTo :: "string option"
  reqMessage :: "string option"
  reqIdentifier :: "string option"
  reqPriority :: "int option"
  reqMetadata :: "(string \<times> string) list option"

datatype sendResponse =
    SendBadRequest string
  | SendAccepted nat nat
  | SendServerError string string

text \<open>
  The handler of \<^verbatim>\<open>POST /sms/send\<close>. \<^verbatim>\<open>job.getQueuePosition()\<close> belongs to the queue
  library: \<open>position\<close> is its result or the message of the error it throws.
\<close>

definition api_sendSMS ::
  "queueFaults \<Rightarrow> retryConfig \<Rightarrow> string + nat \<Rightarrow> sendRequest \<Rightarrow> queueState \<Rightarrow> sendResponse \<times> queueState" where
  "api_sendSMS faults rcfg position req q =
     (if falsy (reqTo req) \<or> falsy (reqMessage req) then
        (SendBadRequest ''Missing required fields: to, message'', q)
      else
        (case addSMSJob faults rcfg
                \<lparr>dataTo = reqTo req, dataMessage = reqMessage req,
                 dataIdentifier = Some (if falsy (reqIdentifier req) then ''api''
                                        else toText (reqIdentifier req)),
                 dataPriority = Some (case reqPriority req of None \<Rightarrow> 0 | Some p \<Rightarrow> p),
                 dataMetadata = Some (case reqMetadata req of None \<Rightarrow> [] | Some md \<Rightarrow> md)\<rparr>
                \<lparr>optPriority = None, optDelay = None, optIdentifier = None\<rparr> q of
           (Inl e, q') \<Rightarrow> (SendServerError ''Failed to queue SMS'' (message e), q')
         | (Inr j, q') \<Rightarrow>
             (case position of
                Inl m \<Rightarrow> (SendServerError ''Failed to queue SMS'' m, q')
              | Inr pos \<Rightarrow> (SendAccepted (jobId j) pos, q'))))"

record bulkRequest =
  reqMessages :: "smsData list option"
  bulkIdentifier :: "string option"
  bulkPriority :: "int option"

datatype bulkResponse =
    BulkBadRequest string
  | BulkAccepted nat nat nat "bulkResult list"

text \<open>
  The handler of \<^verbatim>\<open>POST /sms/bulk\<close>; \<open>reqMessages\<close> is \<open>None\<close> when the body has no
  array under \<^verbatim>\<open>messages\<close>.
\<close>

definition api_sendBulkSMS ::
  "queueFaults \<Rightarrow> retryConfig \<Rightarrow> bulkRequest \<Rightarrow> queueState \<Rightarrow> bulkResponse \<times> queueState" where
  "api_sendBulkSMS faults rcfg req q =
     (case reqMessages req of
        None \<Rightarrow> (BulkBadRequest ''Missing or invalid messages array'', q)
      | Some messages \<Rightarrow>
          if messages = [] then (BulkBadRequest ''Missing or invalid messages array'', q)
          else if list_ex (\<lambda>msg. falsy (dataTo msg) \<or> falsy (dataMessage msg)) messages then
            (BulkBadRequest ''Each message must contain to and message fields'', q)
          else
            (case addBulkSMSJobs faults rcfg messages
                    \<lparr>optPriority = Some (case bulkPriority req of None \<Rightarrow> 0 | Some p \<Rightarrow> p),
                     optDelay = None,
                     optIdentifier = Some (if falsy (bulkIdentifier req) then ''bulk-api''
                                           else toText (bulkIdentifier req))\<rparr> q of
               (results, q') \<Rightarrow>
                 (BulkAccepted (length messages) (length (filter success results))
                    (length (filter (\<lambda>r. \<not> success r) results)) results, q')))"

section \<open>Sample data\<close>

text \<open>A connected store with no keys, an empty queue, and a store and queue that never fail.\<close>

definition freshStore :: redis where
  "freshStore = \<lparr>initialized = True, windows = (\<lambda>_. emptyWindow), deliveryLogs = [],
                 dailyLogs = (\<lambda>_. ([], None))\<rparr>"

definition emptyQueue :: queueState where
  "emptyQueue = \<lparr>jobs = [], nextId = 1, addCalls = 0\<rparr>"

definition noFaults :: queueFaults where
  "noFaults = (\<lambda>_. None)"

definition jobApiOk :: jobApi where
  "jobApiOk = \<lparr>updateProgressError = None, addResultError = None\<rparr>"

text \<open>A job object on which \<^verbatim>\<open>addResult\<close> is not a function.\<close>

definition jobApiNoAddResult :: jobApi where
  "jobApiNoAddResult =
     \<lparr>updateProgressError = None, addResultError = Some ''job.addResult is not a function''\<rparr>"

text \<open>
  Thirty calls within one second, 30 ms apart, from 1700000000000 on, each with its
  own random draw; the thirty-first call comes at 1700000000999.
\<close>

definition burst :: "(int \<times> nat) list" where
  "burst = map (\<lambda>k. (1700000000000 + int k * 30, k)) [0..<30]"

definition afterBurst :: redis where
  "afterBurst = snd (isAllowed_seq defaultRateLimit ''u1'' burst freshStore)"

definition blockedStore :: redis where
  "blockedStore = snd (isAllowed defaultRateLimit None 1700000000999 30 ''u1'' afterBurst)"

text \<open>Two admitted calls fifty seconds apart.\<close>

definition twoCallsStore :: redis where
  "twoCallsStore =
     snd (isAllowed_seq defaultRateLimit ''u1'' [(1700000000000, 0), (1700000050000, 1)] freshStore)"

definition sampleEnv :: callEnv where
  "sampleEnv = \<lparr>clock = 1700000001500, random = 31, isoTime = ''2023-11-14T22:13:21.500Z'',
                limiterFault = None, logFault = None\<rparr>"

definition sampleData :: smsData where
  "sampleData = \<lparr>dataTo = Some ''+254712345678'', dataMessage = Some ''Hello'',
                 dataIdentifier = Some ''u1'', dataPriority = Some 0, dataMetadata = Some []\<rparr>"

definition sampleWorld :: world where
  "sampleWorld = \<lparr>store = freshStore, outbox = []\<rparr>"

definition blockedWorld :: world where
  "blockedWorld = \<lparr>store = blockedStore, outbox = []\<rparr>"

text \<open>A gateway that accepts every message, and one that answers with its own throttling error.\<close>

definition acceptingGateway :: gateway where
  "acceptingGateway = (\<lambda>recipient body.
     GatewayResult [\<lparr>messageId = ''ATXid_1'', recipientStatus = ''Success'', cost = ''KES 0.8000''\<rparr>])"

definition throttlingGateway :: gateway where
  "throttlingGateway = (\<lambda>recipient body. GatewayFailure ''Request failed: Rate limit exceeded (429)'')"

definition droppingGateway :: gateway where
  "droppingGateway = (\<lambda>recipient body. GatewayFailure ''socket hang up'')"

text \<open>A batch of three items and a queue whose second \<^verbatim>\<open>queue.add\<close> rejects.\<close>

definition bulkItem :: "string \<Rightarrow> string \<Rightarrow> smsData" where
  "bulkItem recipient body =
     \<lparr>dataTo = Some recipient, dataMessage = Some body, dataIdentifier = None,
      dataPriority = None, dataMetadata = None\<rparr>"

definition sampleBatch :: "smsData list" where
  "sampleBatch = [bulkItem ''+254712345678'' ''Message 1'', bulkItem ''+254798765432'' ''Message 2'',
                  bulkItem ''+254700000001'' ''Message 3'']"

definition secondAddFails :: queueFaults where
  "secondAddFails = (\<lambda>k. if k = 1 then Some ''Connection is closed.'' else None)"

definition sampleRequest :: sendRequest where
  "sampleRequest = \<lparr>reqTo = Some ''+254712345678'', reqMessage = Some ''Hello'',
                    reqIdentifier = Some ''u1'', reqPriority = None, reqMetadata = None\<rparr>"

text \<open>The batch with the recipient of its second item missing.\<close>

definition brokenBatch :: "smsData list" where
  "brokenBatch = [bulkItem ''+254712345678'' ''Message 1'',
                  (bulkItem ''+254798765432'' ''Message 2'')\<lparr>dataTo := None\<rparr>,
                  bulkItem ''+254700000001'' ''Message 3'']"

section \<open>Facts about the store commands\<close>

lemma ceilSeconds_covers: "0 < ms \<Longrightarrow> ms \<le> ceilSeconds ms * 1000"
  unfolding ceilSeconds_def by linarith

lemma ceilSeconds_ge1: "0 < ms \<Longrightarrow> 1 \<le> ceilSeconds ms"
  unfolding ceilSeconds_def by linarith

lemma expired_earlier: "\<not> expired t d \<Longrightarrow> t' \<le> t \<Longrightarrow> \<not> expired t' d"
  by (auto simp: expired_def split: option.splits)

lemma ttl_later: "ttl t' d \<le> 0 \<Longrightarrow> t' \<le> t \<Longrightarrow> ttl t d \<le> 0"
  unfolding ttl_def by (auto split: option.splits if_splits)

lemma ttl_positive: "t' + 500 \<le> e \<Longrightarrow> 0 < ttl t' (Some e)"
  unfolding ttl_def by (auto split: option.splits if_splits)

lemma update_new_mem: "(k, v) \<in> set (AList.update k v al)"
  by (induction al) auto

lemma update_other_mem: "(k', v') \<in> set al \<Longrightarrow> k' \<noteq> k \<Longrightarrow> (k', v') \<in> set (AList.update k v al)"
  by (induction al) auto

lemma update_keys: "fst ` set (AList.update k v al) = insert k (fst ` set al)"
  by (induction al) auto

lemma update_not_Nil: "AList.update k v al \<noteq> []"
  by (cases al) auto

lemma count_lower:
  assumes "S \<subseteq> set xs" "\<forall>x \<in> S. Q x"
  shows "card S \<le> length (filter Q xs)"
proof -
  have "S \<subseteq> set (filter Q xs)" using assms by auto
  then have "card S \<le> card (set (filter Q xs))" by (intro card_mono) auto
  also have "\<dots> \<le> length (filter Q xs)" by (rule card_length)
  finally show ?thesis .
qed

section \<open>The three outcomes of isAllowed when the store answers\<close>

lemma isAllowed_try_blocked:
  "0 < ttl now (blockExpiry w) \<Longrightarrow>
   isAllowed_try cfg None now rnd w =
     (Inr \<lparr>allowed = False, remaining = 0, resetTime = now + ttl now (blockExpiry w) * 1000,
           blocked = True, blockDuration = Some (ttl now (blockExpiry w) * 1000)\<rparr>, w)"
  by (simp add: isAllowed_try_def Let_def)

lemma isAllowed_try_admit:
  "ttl now (blockExpiry w) \<le> 0 \<Longrightarrow>
   zcard now (zremrangebyscore now 0 (now - windowMs cfg) w) < maxRequests cfg \<Longrightarrow>
   isAllowed_try cfg None now rnd w =
     (Inr \<lparr>allowed = True,
           remaining = maxRequests cfg - (zcard now (zremrangebyscore now 0 (now - windowMs cfg) w) + 1),
           resetTime = now + windowMs cfg, blocked = False, blockDuration = None\<rparr>,
      expire now (ceilSeconds (windowMs cfg))
        (zadd now now (now, rnd) (zremrangebyscore now 0 (now - windowMs cfg) w)))"
  by (simp add: isAllowed_try_def Let_def)

lemma isAllowed_try_reject:
  "ttl now (blockExpiry w) \<le> 0 \<Longrightarrow> 0 < blockDurationMs cfg \<Longrightarrow>
   maxRequests cfg \<le> zcard now (zremrangebyscore now 0 (now - windowMs cfg) w) \<Longrightarrow>
   \<exists>rt. isAllowed_try cfg None now rnd w =
     (Inr \<lparr>allowed = False, remaining = 0, resetTime = rt, blocked = True,
           blockDuration = Some (blockDurationMs cfg)\<rparr>,
      (zremrangebyscore now 0 (now - windowMs cfg) w)
        \<lparr>blockExpiry := Some (now + ceilSeconds (blockDurationMs cfg) * 1000)\<rparr>)"
  using ceilSeconds_ge1[of "blockDurationMs cfg"]
  by (simp add: isAllowed_try_def Let_def setex_def)

lemma isAllowed_try_allowed:
  "isAllowed_try cfg None now rnd w = (Inr d, w') \<Longrightarrow> allowed d \<Longrightarrow>
   ttl now (blockExpiry w) \<le> 0 \<and>
   zcard now (zremrangebyscore now 0 (now - windowMs cfg) w) < maxRequests cfg"
  by (auto simp: isAllowed_try_def Let_def split: if_splits sum.splits option.splits)

lemma isAllowed_try_no_throw:
  "0 < blockDurationMs cfg \<Longrightarrow> fst (isAllowed_try cfg None now rnd w) \<noteq> Inl e"
  using ceilSeconds_ge1[of "blockDurationMs cfg"]
  by (auto simp: isAllowed_try_def Let_def setex_def split: option.splits)

lemma isAllowed_admitted:
  assumes "initialized st" "0 < blockDurationMs cfg"
    and "isAllowed cfg None now rnd i st = (Inr dec, st')" "allowed dec"
  shows "ttl now (blockExpiry (windows st i)) \<le> 0"
    and "st' = st\<lparr>windows := (windows st)(i := expire now (ceilSeconds (windowMs cfg))
           (zadd now now (now, rnd) (zremrangebyscore now 0 (now - windowMs cfg) (windows st i))))\<rparr>"
proof -
  obtain r w' where tr: "isAllowed_try cfg None now rnd (windows st i) = (r, w')"
    by (cases "isAllowed_try cfg None now rnd (windows st i)")
  with isAllowed_try_no_throw[OF assms(2), of now rnd "windows st i"]
  obtain d where r: "r = Inr d" by (cases r) auto
  from assms(1,3) tr r have d: "d = dec" and st': "st' = st\<lparr>windows := (windows st)(i := w')\<rparr>"
    by (auto simp: isAllowed_def)
  from isAllowed_try_allowed[of cfg now rnd "windows st i" dec w'] tr r d assms(4)
  have c: "ttl now (blockExpiry (windows st i)) \<le> 0"
    "zcard now (zremrangebyscore now 0 (now - windowMs cfg) (windows st i)) < maxRequests cfg"
    by auto
  show "ttl now (blockExpiry (windows st i)) \<le> 0" by (rule c(1))
  from isAllowed_try_admit[OF c, of rnd] tr st'
  show "st' = st\<lparr>windows := (windows st)(i := expire now (ceilSeconds (windowMs cfg))
           (zadd now now (now, rnd) (zremrangebyscore now 0 (now - windowMs cfg) (windows st i))))\<rparr>"
    by simp
qed

lemma isAllowed_blocked:
  assumes "initialized st" "0 < ttl now (blockExpiry (windows st i))"
  shows "\<exists>dec. isAllowed cfg None now rnd i st = (Inr dec, st) \<and> \<not> allowed dec \<and> blocked dec"
  using assms isAllowed_try_blocked[OF assms(2), of cfg rnd]
  by (simp add: isAllowed_def)

lemma isAllowed_rejects_full:
  assumes init: "initialized st" and B: "0 < blockDurationMs cfg"
    and nb: "ttl now (blockExpiry (windows st i)) \<le> 0"
    and full: "maxRequests cfg \<le> zcard now (zremrangebyscore now 0 (now - windowMs cfg) (windows st i))"
  shows "\<exists>dec st'. isAllowed cfg None now rnd i st = (Inr dec, st') \<and> \<not> allowed dec \<and> blocked dec \<and>
     blockDuration dec = Some (blockDurationMs cfg) \<and> initialized st' \<and>
     blockExpiry (windows st' i) = Some (now + ceilSeconds (blockDurationMs cfg) * 1000)"
proof -
  from isAllowed_try_reject[OF nb B full, of rnd] obtain rt where
    "isAllowed_try cfg None now rnd (windows st i) =
     (Inr \<lparr>allowed = False, remaining = 0, resetTime = rt, blocked = True,
           blockDuration = Some (blockDurationMs cfg)\<rparr>,
      (zremrangebyscore now 0 (now - windowMs cfg) (windows st i))
        \<lparr>blockExpiry := Some (now + ceilSeconds (blockDurationMs cfg) * 1000)\<rparr>)" by blast
  then show ?thesis using init by (simp add: isAllowed_def)
qed

section \<open>Admitted calls stay in the window\<close>

text \<open>
  One admitted call at \<open>now\<close>, seen from a later time \<open>t\<close> that is less than a window
  away: the entries \<open>P\<close> that were in the window stay, the new entry joins them, and
  the sorted set outlives \<open>t\<close>.
\<close>

lemma admit_step:
  assumes W: "0 < windowMs cfg" and lo: "t - windowMs cfg < now" and hi: "now \<le> t"
    and sub: "P \<subseteq> set (events w)"
    and alive: "P \<noteq> {} \<longrightarrow> \<not> expired t (eventsExpiry w)"
    and prot: "\<forall>(m, s) \<in> P. t - windowMs cfg < s \<and> m \<noteq> (now, rnd)"
  defines "w' \<equiv> expire now (ceilSeconds (windowMs cfg))
                  (zadd now now (now, rnd) (zremrangebyscore now 0 (now - windowMs cfg) w))"
  shows "insert ((now, rnd), now) P \<subseteq> set (events w')"
    and "\<not> expired t (eventsExpiry w')"
    and "blockExpiry w' = blockExpiry w"
    and "fst ` set (events w') \<subseteq> insert (now, rnd) (fst ` set (events w))"
proof -
  let ?w1 = "zremrangebyscore now 0 (now - windowMs cfg) w"
  let ?w2 = "zadd now now (now, rnd) ?w1"
  have secs: "1 \<le> ceilSeconds (windowMs cfg)" "windowMs cfg \<le> ceilSeconds (windowMs cfg) * 1000"
    using W ceilSeconds_ge1 ceilSeconds_covers by auto
  have P_live: "P \<subseteq> set (liveEvents now w)"
  proof (cases "P = {}")
    case False
    with alive hi have "\<not> expired now (eventsExpiry w)" using expired_earlier by blast
    with sub show ?thesis by (simp add: liveEvents_def)
  qed simp
  have P1: "P \<subseteq> set (events ?w1)"
    using P_live prot lo hi by (auto simp: zremrangebyscore_def Let_def)
  have live1: "liveEvents now ?w1 = events ?w1"
    by (auto simp: zremrangebyscore_def Let_def liveEvents_def expired_def split: option.splits)
  have ev1_sub: "set (events ?w1) \<subseteq> set (events w)"
    by (auto simp: zremrangebyscore_def Let_def liveEvents_def)
  have ev2: "events ?w2 = AList.update (now, rnd) now (events ?w1)"
    by (simp add: zadd_def live1)
  have alive2: "\<not> expired now (eventsExpiry ?w2)"
    using live1 by (auto simp: zadd_def liveEvents_def expired_def split: option.splits if_splits)
  have live2: "liveEvents now ?w2 \<noteq> []"
    using alive2 ev2 update_not_Nil by (simp add: liveEvents_def)
  have w': "w' = ?w2\<lparr>eventsExpiry := Some (now + ceilSeconds (windowMs cfg) * 1000)\<rparr>"
    unfolding w'_def expire_def using live2 secs by simp
  show "insert ((now, rnd), now) P \<subseteq> set (events w')"
    using P1 prot by (auto simp: w' ev2 update_new_mem intro!: update_other_mem)
  show "\<not> expired t (eventsExpiry w')"
    using secs lo by (simp add: w' expired_def)
  show "blockExpiry w' = blockExpiry w"
    by (simp add: w' zadd_def zremrangebyscore_def Let_def)
  show "fst ` set (events w') \<subseteq> insert (now, rnd) (fst ` set (events w))"
    using ev1_sub by (auto simp: w' ev2 update_keys)
qed

lemma run_admitted:
  assumes W: "0 < windowMs cfg" and B: "0 < blockDurationMs cfg"
  shows "initialized st \<Longrightarrow>
    \<forall>(t', r') \<in> set cs. t - windowMs cfg < t' \<and> t' \<le> t \<Longrightarrow>
    distinct cs \<Longrightarrow> set cs \<inter> fst ` set (events (windows st i)) = {} \<Longrightarrow>
    P \<subseteq> set (events (windows st i)) \<Longrightarrow>
    (P \<noteq> {} \<longrightarrow> \<not> expired t (eventsExpiry (windows st i))) \<Longrightarrow>
    \<forall>(m, s) \<in> P. t - windowMs cfg < s \<Longrightarrow>
    isAllowed_seq cfg i cs st = (ds, st1) \<Longrightarrow>
    list_all admitted ds \<Longrightarrow>
    initialized st1 \<and>
    P \<union> (\<lambda>c. (c, fst c)) ` set cs \<subseteq> set (events (windows st1 i)) \<and>
    (P \<union> (\<lambda>c. (c, fst c)) ` set cs \<noteq> {} \<longrightarrow> \<not> expired t (eventsExpiry (windows st1 i))) \<and>
    blockExpiry (windows st1 i) = blockExpiry (windows st i) \<and>
    (cs \<noteq> [] \<longrightarrow> ttl t (blockExpiry (windows st i)) \<le> 0)"
proof (induction cs arbitrary: st P ds)
  case Nil
  then show ?case by auto
next
  case (Cons c cs)
  obtain now rnd where c: "c = (now, rnd)" by (cases c)
  obtain d st' where step: "isAllowed cfg None now rnd i st = (d, st')"
    by (cases "isAllowed cfg None now rnd i st")
  obtain ds' st'' where rest: "isAllowed_seq cfg i cs st' = (ds', st'')"
    by (cases "isAllowed_seq cfg i cs st'")
  from Cons.prems(8) c step rest have ds: "ds = d # ds'" and st1: "st1 = st''" by auto
  from Cons.prems(9) ds obtain dec where dec: "d = Inr dec" "allowed dec"
    by (cases d) (auto simp: admitted_def)
  have bounds: "t - windowMs cfg < now" "now \<le> t" using Cons.prems(2) c by auto
  let ?w' = "expire now (ceilSeconds (windowMs cfg))
           (zadd now now (now, rnd) (zremrangebyscore now 0 (now - windowMs cfg) (windows st i)))"
  from step dec have step': "isAllowed cfg None now rnd i st = (Inr dec, st')" by simp
  from isAllowed_admitted[OF Cons.prems(1) B step' dec(2)]
  have ttl0: "ttl now (blockExpiry (windows st i)) \<le> 0"
    and st': "st' = st\<lparr>windows := (windows st)(i := ?w')\<rparr>" by auto
  have prot: "\<forall>(m, s) \<in> P. t - windowMs cfg < s \<and> m \<noteq> (now, rnd)"
    using Cons.prems(4,5,7) c by force
  note stepinv = admit_step[OF W bounds Cons.prems(5) Cons.prems(6) prot]
  let ?P' = "insert ((now, rnd), now) P"
  have w'i: "windows st' i = ?w'" by (simp add: st')
  have init': "initialized st'" using Cons.prems(1) by (simp add: st')
  have p2: "\<forall>(t', r') \<in> set cs. t - windowMs cfg < t' \<and> t' \<le> t" using Cons.prems(2) by auto
  have p3: "distinct cs" using Cons.prems(3) by simp
  have p4: "set cs \<inter> fst ` set (events (windows st' i)) = {}"
    using stepinv(4) Cons.prems(3,4) c unfolding w'i by auto
  have p5: "?P' \<subseteq> set (events (windows st' i))" using stepinv(1) unfolding w'i .
  have p6: "?P' \<noteq> {} \<longrightarrow> \<not> expired t (eventsExpiry (windows st' i))"
    using stepinv(2) unfolding w'i by simp
  have p7: "\<forall>(m, s) \<in> ?P'. t - windowMs cfg < s" using Cons.prems(7) bounds by auto
  have p9: "list_all admitted ds'" using Cons.prems(9) ds by simp
  have rest': "isAllowed_seq cfg i cs st' = (ds', st1)" using rest st1 by simp
  from Cons.IH[OF init' p2 p3 p4 p5 p6 p7 rest' p9]
  have IH: "initialized st1"
    "?P' \<union> (\<lambda>c. (c, fst c)) ` set cs \<subseteq> set (events (windows st1 i))"
    "\<not> expired t (eventsExpiry (windows st1 i))"
    "blockExpiry (windows st1 i) = blockExpiry (windows st' i)" by auto
  have "ttl t (blockExpiry (windows st i)) \<le> 0" using ttl_later[OF ttl0 bounds(2)] .
  with IH stepinv(3) show ?case unfolding w'i c by auto
qed

lemma blocked_seq:
  assumes "initialized st" "blockExpiry (windows st i) = Some e"
  shows "\<forall>(t', r') \<in> set calls. t' + 500 \<le> e \<Longrightarrow>
    \<exists>ds. isAllowed_seq cfg i calls st = (ds, st) \<and> length ds = length calls \<and>
      list_all rejectedBlocked ds"
proof (induction calls)
  case Nil
  then show ?case by simp
next
  case (Cons c calls)
  obtain now rnd where c: "c = (now, rnd)" by (cases c)
  from Cons.prems c have "now + 500 \<le> e" by auto
  then have "0 < ttl now (blockExpiry (windows st i))" using assms(2) ttl_positive by simp
  from isAllowed_blocked[OF assms(1) this, of cfg rnd]
  obtain dec where dec: "isAllowed cfg None now rnd i st = (Inr dec, st)" "\<not> allowed dec" "blocked dec"
    by blast
  from Cons.IH Cons.prems obtain ds where ds: "isAllowed_seq cfg i calls st = (ds, st)"
    "length ds = length calls" "list_all rejectedBlocked ds"
    by auto
  have "rejectedBlocked (Inr dec)" using dec(2,3) by (simp add: rejectedBlocked_def)
  then show ?case using dec(1) ds unfolding c by simp
qed

section \<open>C1: the block after maxRequests admitted calls\<close>

text \<open>
  The part of C1 that the code keeps. The configuration has positive window, limit and
  block duration and the store answers every command. Let \<open>maxRequests\<close> calls of
  \<open>isAllowed\<close> for one identifier, all less than one window before a time \<open>t\<close> and each
  with a member not yet in the sorted set, be admitted. Then the next call, at \<open>t\<close>, returns
  \<open>allowed = false\<close>, \<open>blocked = true\<close> and \<open>blockDuration = blockDurationMs\<close>, and every
  call from \<open>t\<close> until 500 ms before the deadline of the block key is rejected as blocked
  and leaves the store as it is.
\<close>

lemma isAllowed_blocks_after_maxRequests:
  assumes W: "0 < windowMs cfg" and M: "0 < maxRequests cfg" and B: "0 < blockDurationMs cfg"
    and init: "initialized st"
    and len: "int (length cs) = maxRequests cfg"
    and win: "list_all (\<lambda>(t', r'). t - windowMs cfg < t' \<and> t' \<le> t) cs"
    and dist: "distinct cs"
    and fresh: "set cs \<inter> fst ` set (events (windows st i)) = {}"
    and run: "isAllowed_seq cfg i cs st = (ds, st1)"
    and adm: "list_all admitted ds"
    and later: "list_all (\<lambda>(t', r'). t \<le> t' \<and>
                  t' + 500 \<le> t + ceilSeconds (blockDurationMs cfg) * 1000) calls"
  shows "\<exists>dec st2 ds'. isAllowed cfg None t r i st1 = (Inr dec, st2) \<and>
           \<not> allowed dec \<and> blocked dec \<and> blockDuration dec = Some (blockDurationMs cfg) \<and>
           isAllowed_seq cfg i calls st2 = (ds', st2) \<and> length ds' = length calls \<and>
           list_all rejectedBlocked ds'"
proof -
  let ?S = "(\<lambda>c. (c, fst c)) ` set cs"
  have ne: "cs \<noteq> []" using len M by auto
  have win': "\<forall>(t', r') \<in> set cs. t - windowMs cfg < t' \<and> t' \<le> t"
    using win by (simp add: list_all_iff)
  from run_admitted[OF W B init win' dist fresh _ _ _ run adm, of "{}"]
  have inv: "initialized st1" "?S \<subseteq> set (events (windows st1 i))"
    "\<not> expired t (eventsExpiry (windows st1 i))"
    "blockExpiry (windows st1 i) = blockExpiry (windows st i)"
    "ttl t (blockExpiry (windows st i)) \<le> 0"
    using ne by auto
  have live: "liveEvents t (windows st1 i) = events (windows st1 i)"
    using inv(3) by (simp add: liveEvents_def)
  have inwin: "\<forall>x \<in> ?S. (\<lambda>(m, s). \<not> (0 \<le> s \<and> s \<le> t - windowMs cfg)) x"
    using win' by auto
  have "card ?S = length cs"
    using dist by (simp add: card_image inj_on_def distinct_card)
  with count_lower[OF inv(2) inwin]
  have "length cs \<le> length (filter (\<lambda>(m, s). \<not> (0 \<le> s \<and> s \<le> t - windowMs cfg))
                              (events (windows st1 i)))"
    by simp
  then have full: "maxRequests cfg \<le> zcard t (zremrangebyscore t 0 (t - windowMs cfg) (windows st1 i))"
    using len live
    by (auto simp: zcard_def zremrangebyscore_def Let_def liveEvents_def expired_def
          split: option.splits)
  have nb: "ttl t (blockExpiry (windows st1 i)) \<le> 0" using inv(4,5) by simp
  from isAllowed_rejects_full[OF inv(1) B nb full, of r]
  obtain dec st2 where rej: "isAllowed cfg None t r i st1 = (Inr dec, st2)" "\<not> allowed dec"
    "blocked dec" "blockDuration dec = Some (blockDurationMs cfg)" "initialized st2"
    "blockExpiry (windows st2 i) = Some (t + ceilSeconds (blockDurationMs cfg) * 1000)" by blast
  have "\<forall>(t', r') \<in> set calls. t' + 500 \<le> t + ceilSeconds (blockDurationMs cfg) * 1000"
    using later by (auto simp: list_all_iff)
  from blocked_seq[OF rej(5,6) this, of cfg]
  obtain ds' where "isAllowed_seq cfg i calls st2 = (ds', st2)" "length ds' = length calls"
    "list_all rejectedBlocked ds'" by blast
  with rej show ?thesis by blast
qed

text \<open>
  The scenario of C1 with the default configuration: the thirty calls of \<open>burst\<close> are
  admitted with \<open>remaining\<close> going from 29 down to 0, the thirty-first call, 999 ms after
  the first, is rejected with \<open>blocked = true\<close> and \<open>blockDuration = 300000\<close>, and calls
  1 ms, about 150 s and 299.5 s after the rejection are rejected as blocked.
\<close>

lemma burst_then_blocked:
  "map (map_sum message (\<lambda>d. (allowed d, remaining d)))
       (fst (isAllowed_seq defaultRateLimit ''u1'' burst freshStore))
     = map (\<lambda>k. Inr (True, 29 - int k)) [0..<30]
   \<and> (\<exists>dec st2 ds'.
        isAllowed defaultRateLimit None 1700000000999 30 ''u1'' afterBurst = (Inr dec, st2) \<and>
        \<not> allowed dec \<and> blocked dec \<and> blockDuration dec = Some 300000 \<and>
        isAllowed_seq defaultRateLimit ''u1''
          [(1700000001000, 31), (1700000150000, 32), (1700000300499, 33)] st2 = (ds', st2) \<and>
        length ds' = 3 \<and> list_all rejectedBlocked ds')"
proof -
  have cfg: "0 < windowMs defaultRateLimit" "0 < maxRequests defaultRateLimit"
    "0 < blockDurationMs defaultRateLimit"
    by (simp_all add: defaultRateLimit_def)
  have init: "initialized freshStore" by (simp add: freshStore_def)
  have len: "int (length burst) = maxRequests defaultRateLimit"
    by (simp add: burst_def defaultRateLimit_def)
  have win: "list_all (\<lambda>(t', r'). 1700000000999 - windowMs defaultRateLimit < t' \<and> t' \<le> 1700000000999) burst"
    by code_simp
  have dist: "distinct burst" by code_simp
  have fresh: "set burst \<inter> fst ` set (events (windows freshStore ''u1'')) = {}"
    by (simp add: freshStore_def emptyWindow_def)
  have run: "isAllowed_seq defaultRateLimit ''u1'' burst freshStore
               = (fst (isAllowed_seq defaultRateLimit ''u1'' burst freshStore), afterBurst)"
    by (simp add: afterBurst_def)
  have adm: "list_all admitted (fst (isAllowed_seq defaultRateLimit ''u1'' burst freshStore))"
    by code_simp
  have later: "list_all (\<lambda>(t', r'). 1700000000999 \<le> t' \<and>
      t' + 500 \<le> 1700000000999 + ceilSeconds (blockDurationMs defaultRateLimit) * 1000)
      [(1700000001000, 31), (1700000150000, 32), (1700000300499, 33)]"
    by code_simp
  have vals: "map (map_sum message (\<lambda>d. (allowed d, remaining d)))
       (fst (isAllowed_seq defaultRateLimit ''u1'' burst freshStore))
     = map (\<lambda>k. Inr (True, 29 - int k)) [0..<30]"
    by code_simp
  have bd: "blockDurationMs defaultRateLimit = 300000" by (simp add: defaultRateLimit_def)
  have l3: "length [(1700000001000::int, 31::nat), (1700000150000, 32), (1700000300499, 33)] = 3"
    by simp
  note main = isAllowed_blocks_after_maxRequests
                [OF cfg init len win dist fresh run adm later, of 30, unfolded bd l3]
  show ?thesis by (rule conjI[OF vals main])
qed

text \<open>
  Claim C1 against the code: after \<open>maxRequests\<close> admitted calls the identifier is to
  stay blocked for \<open>blockDurationMs\<close>. \<open>isAllowed\<close> sets the block key for the block
  duration rounded up to whole seconds, but it tests the block with \<^verbatim>\<open>ttl(blockKey) > 0\<close>,
  and the store reports the life that is left in seconds rounded to the nearest. With the
  default configuration, after the thirty admitted calls and the rejection at
  1700000000999, the block key has the deadline 1700000300999. At 1700000300599, that is
  299600 ms after the rejection and inside the 300000 ms of the block, the key is still
  there with 400 ms left, the store reports 0, and the call is admitted.
\<close>

theorem isAllowed_admits_before_blockDuration_elapsed:
  "list_all admitted (fst (isAllowed_seq defaultRateLimit ''u1'' burst freshStore))
   \<and> rejectedBlocked (fst (isAllowed defaultRateLimit None 1700000000999 30 ''u1'' afterBurst))
   \<and> blockExpiry (windows blockedStore ''u1'') = Some 1700000300999
   \<and> 1700000300599 - 1700000000999 < blockDurationMs defaultRateLimit
   \<and> \<not> expired 1700000300599 (blockExpiry (windows blockedStore ''u1''))
   \<and> ttl 1700000300599 (blockExpiry (windows blockedStore ''u1'')) = 0
   \<and> admitted (fst (isAllowed defaultRateLimit None 1700000300599 31 ''u1'' blockedStore))"
  by code_simp

section \<open>C4: isAllowed and getStatus on the same state\<close>

text \<open>
  C4 as stated fails on \<open>remaining\<close>: on a store without events the default
  configuration gives \<open>remaining = 29\<close> from \<open>isAllowed\<close> and \<open>remaining = 30\<close> from
  \<open>getStatus\<close>, for the same state and time.
\<close>

theorem isAllowed_getStatus_remaining_differ:
  "fst (isAllowed defaultRateLimit None 1700000000000 0 ''u1'' freshStore)
     = Inr \<lparr>allowed = True, remaining = 29, resetTime = 1700000060000, blocked = False,
            blockDuration = None\<rparr>
   \<and> fst (getStatus defaultRateLimit None 1700000000000 ''u1'' freshStore)
     = Inr \<lparr>allowed = True, remaining = 30, resetTime = 1700000060000, blocked = False,
            blockDuration = None\<rparr>"
  by code_simp

text \<open>
  Claim C4, as the code has it. On the same state at the same time, with the store
  answering and a positive block duration, \<open>isAllowed\<close> and \<open>getStatus\<close> return the same
  \<open>allowed\<close>. When the request is not allowed both report \<open>remaining = 0\<close>; when it is
  allowed \<open>getStatus\<close> reports one more than \<open>isAllowed\<close>, which counts the request it has
  just recorded. \<open>getStatus\<close> leaves the block key as it is; \<open>isAllowed\<close> changes it only
  when it rejects with \<open>blocked = true\<close>, in a state where \<open>getStatus\<close> reports no block.
\<close>

theorem isAllowed_getStatus_agreement:
  assumes "initialized st" "0 < blockDurationMs cfg"
  shows "\<exists>a g. fst (isAllowed cfg None now rnd i st) = Inr a \<and>
               fst (getStatus cfg None now i st) = Inr g \<and>
               allowed a = allowed g \<and>
               (allowed a \<longrightarrow> remaining g = remaining a + 1) \<and>
               (\<not> allowed a \<longrightarrow> remaining a = 0 \<and> remaining g = 0) \<and>
               blockExpiry (windows (snd (getStatus cfg None now i st)) i) = blockExpiry (windows st i) \<and>
               (blockExpiry (windows (snd (isAllowed cfg None now rnd i st)) i) \<noteq> blockExpiry (windows st i)
                  \<longrightarrow> \<not> allowed a \<and> blocked a \<and> \<not> blocked g)"
proof (cases "0 < ttl now (blockExpiry (windows st i))")
  case True
  then show ?thesis using assms(1)
    by (simp add: isAllowed_def isAllowed_try_def getStatus_def getStatus_try_def Let_def)
next
  case False
  let ?w1 = "zremrangebyscore now 0 (now - windowMs cfg) (windows st i)"
  have b1: "blockExpiry ?w1 = blockExpiry (windows st i)"
    by (simp add: zremrangebyscore_def Let_def)
  show ?thesis
  proof (cases "maxRequests cfg \<le> zcard now ?w1")
    case True
    with False assms ceilSeconds_ge1[of "blockDurationMs cfg"] b1 show ?thesis
      by (simp add: isAllowed_def isAllowed_try_def getStatus_def getStatus_try_def Let_def setex_def)
  next
    case False
    have b3: "blockExpiry (expire now (ceilSeconds (windowMs cfg)) (zadd now now (now, rnd) ?w1))
                = blockExpiry (windows st i)"
      by (simp add: expire_def zadd_def b1)
    from False \<open>\<not> 0 < ttl now (blockExpiry (windows st i))\<close> assms b1 b3 show ?thesis
      by (simp add: isAllowed_def isAllowed_try_def getStatus_def getStatus_try_def Let_def)
  qed
qed

theorem isAllowed_getStatus_agreement_witness:
  "initialized afterBurst \<and> 0 < blockDurationMs defaultRateLimit \<and>
   (\<exists>a g. fst (isAllowed defaultRateLimit None 1700000000999 30 ''u1'' afterBurst) = Inr a \<and>
          fst (getStatus defaultRateLimit None 1700000000999 ''u1'' afterBurst) = Inr g \<and>
          \<not> allowed a \<and> \<not> allowed g \<and> remaining a = 0 \<and> remaining g = 0 \<and>
          blocked a \<and> \<not> blocked g \<and>
          blockExpiry (windows (snd (getStatus defaultRateLimit None 1700000000999 ''u1'' afterBurst)) ''u1'')
            = blockExpiry (windows afterBurst ''u1''))"
proof -
  have h1: "initialized afterBurst" by code_simp
  have h2: "0 < blockDurationMs defaultRateLimit" by (simp add: defaultRateLimit_def)
  have rej: "rejectedBlocked (fst (isAllowed defaultRateLimit None 1700000000999 30 ''u1'' afterBurst))"
    by code_simp
  have nb: "\<not> rejectedBlocked (fst (getStatus defaultRateLimit None 1700000000999 ''u1'' afterBurst))"
    by code_simp
  from isAllowed_getStatus_agreement[OF h1 h2, of 1700000000999 30 "''u1''"]
  obtain a g where ag:
    "fst (isAllowed defaultRateLimit None 1700000000999 30 ''u1'' afterBurst) = Inr a"
    "fst (getStatus defaultRateLimit None 1700000000999 ''u1'' afterBurst) = Inr g"
    "allowed a = allowed g" "\<not> allowed a \<longrightarrow> remaining a = 0 \<and> remaining g = 0"
    "blockExpiry (windows (snd (getStatus defaultRateLimit None 1700000000999 ''u1'' afterBurst)) ''u1'')
       = blockExpiry (windows afterBurst ''u1'')"
    by (elim exE conjE)
  from rej ag(1) have a: "\<not> allowed a" "blocked a" by (simp_all add: rejectedBlocked_def)
  from ag(3) a(1) have g: "\<not> allowed g" by simp
  from nb ag(2) g have bg: "\<not> blocked g" by (simp add: rejectedBlocked_def)
  from ag(4) a(1) have r: "remaining a = 0" "remaining g = 0" by simp_all
  have ex: "\<exists>a g. fst (isAllowed defaultRateLimit None 1700000000999 30 ''u1'' afterBurst) = Inr a \<and>
          fst (getStatus defaultRateLimit None 1700000000999 ''u1'' afterBurst) = Inr g \<and>
          \<not> allowed a \<and> \<not> allowed g \<and> remaining a = 0 \<and> remaining g = 0 \<and>
          blocked a \<and> \<not> blocked g \<and>
          blockExpiry (windows (snd (getStatus defaultRateLimit None 1700000000999 ''u1'' afterBurst)) ''u1'')
            = blockExpiry (windows afterBurst ''u1'')"
    by (intro exI[of _ a] exI[of _ g] conjI) (fact ag(1) ag(2) a g r bg ag(5))+
  show ?thesis by (rule conjI[OF h1 conjI[OF h2 ex]])
qed

section \<open>C5: what getStatus changes\<close>

text \<open>
  C5 as stated fails: \<open>getStatus\<close> issues \<^verbatim>\<open>ZREMRANGEBYSCORE\<close> and so removes the
  events that have left the window. After admitted calls at 1700000000000 and
  1700000050000 the sorted set holds both events; a \<open>getStatus\<close> call at 1700000070000
  leaves only the second.
\<close>

theorem getStatus_removes_expired_events:
  "events (windows twoCallsStore ''u1'')
     = [((1700000000000, 0), 1700000000000), ((1700000050000, 1), 1700000050000)]
   \<and> liveEvents 1700000070000 (windows twoCallsStore ''u1'') = events (windows twoCallsStore ''u1'')
   \<and> events (windows (snd (getStatus defaultRateLimit None 1700000070000 ''u1'' twoCallsStore)) ''u1'')
     = [((1700000050000, 1), 1700000050000)]"
  by code_simp

text \<open>
  Claim C5, as the code has it. \<open>getStatus\<close> never creates or changes a block, never adds
  an event and never touches another identifier, the logs or the client. When the client
  is connected, the TTL and ZREMRANGEBYSCORE commands succeed and the identifier is not
  blocked, the sorted set of the identifier afterwards is exactly what the store held
  before without the events whose score lies between 0 and \<open>now - windowMs\<close>, and a set
  left empty loses its deadline; nothing else changes. In every other case (the
  identifier is blocked, one of the two commands fails, the client is not connected) the
  state after the call is exactly the state before.
\<close>

theorem getStatus_only_prunes:
  "(let w = windows st i; st' = snd (getStatus cfg failAt now i st);
        kept = filter (\<lambda>(m, s). \<not> (0 \<le> s \<and> s \<le> now - windowMs cfg)) (liveEvents now w) in
     (if initialized st \<and> failAt \<noteq> Some 0 \<and> ttl now (blockExpiry w) \<le> 0 \<and> failAt \<noteq> Some 1
      then st' = st\<lparr>windows := (windows st)
                    (i := w\<lparr>events := kept,
                            eventsExpiry := (if kept = [] then None else eventsExpiry w)\<rparr>)\<rparr>
      else st' = st) \<and>
     initialized st' = initialized st \<and> deliveryLogs st' = deliveryLogs st \<and>
     dailyLogs st' = dailyLogs st \<and>
     (\<forall>j. blockExpiry (windows st' j) = blockExpiry (windows st j)) \<and>
     (\<forall>j. j \<noteq> i \<longrightarrow> windows st' j = windows st j) \<and>
     set (events (windows st' i)) \<subseteq> set (events (windows st i)) \<and>
     (\<forall>e \<in> set (liveEvents now (windows st i)).
        now - windowMs cfg < snd e \<longrightarrow> e \<in> set (events (windows st' i))))"
proof -
  let ?w = "windows st i"
  let ?kept = "filter (\<lambda>(m, s). \<not> (0 \<le> s \<and> s \<le> now - windowMs cfg)) (liveEvents now ?w)"
  let ?w1 = "?w\<lparr>events := ?kept, eventsExpiry := (if ?kept = [] then None else eventsExpiry ?w)\<rparr>"
  let ?c = "initialized st \<and> failAt \<noteq> Some 0 \<and> ttl now (blockExpiry ?w) \<le> 0 \<and> failAt \<noteq> Some 1"
  have z: "zremrangebyscore now 0 (now - windowMs cfg) ?w = ?w1"
    by (simp add: zremrangebyscore_def Let_def)
  have tr: "snd (getStatus_try cfg failAt now ?w)
              = (if failAt \<noteq> Some 0 \<and> ttl now (blockExpiry ?w) \<le> 0 \<and> failAt \<noteq> Some 1 then ?w1 else ?w)"
    unfolding getStatus_try_def Let_def z by simp
  have st': "snd (getStatus cfg failAt now i st) =
      (if ?c then st\<lparr>windows := (windows st)(i := ?w1)\<rparr> else st)"
  proof -
    have g: "snd (getStatus cfg failAt now i st) =
        (if initialized st
         then st\<lparr>windows := (windows st)(i := snd (getStatus_try cfg failAt now ?w))\<rparr> else st)"
      by (simp add: getStatus_def split: prod.splits sum.splits)
    show ?thesis
    proof (cases "failAt \<noteq> Some 0 \<and> ttl now (blockExpiry ?w) \<le> 0 \<and> failAt \<noteq> Some 1")
      case True
      then have "snd (getStatus_try cfg failAt now ?w) = ?w1" by (simp add: tr)
      with True show ?thesis by (simp only: g) simp
    next
      case False
      then have "snd (getStatus_try cfg failAt now ?w) = ?w" by (auto simp: tr)
      with False show ?thesis by (simp only: g) auto
    qed
  qed
  have p2: "set ?kept \<subseteq> set (events ?w)"
    by (auto simp: liveEvents_def split: if_splits)
  have p3: "\<forall>e \<in> set (liveEvents now ?w). now - windowMs cfg < snd e \<longrightarrow> e \<in> set ?kept"
    by auto
  have p4: "\<forall>e \<in> set (liveEvents now ?w). now - windowMs cfg < snd e \<longrightarrow> e \<in> set (events ?w)"
    by (auto simp: liveEvents_def split: if_splits)
  show ?thesis
  proof (cases ?c)
    case True
    then have e: "snd (getStatus cfg failAt now i st) = st\<lparr>windows := (windows st)(i := ?w1)\<rparr>"
      by (simp add: st')
    show ?thesis unfolding Let_def e using True p2 p3 by simp
  next
    case False
    then have e: "snd (getStatus cfg failAt now i st) = st" by (auto simp: st')
    show ?thesis unfolding Let_def e using False p4 by auto
  qed
qed

text \<open>
  For the blocked identifier \<open>getStatus\<close> leaves the store as it is; after the two calls
  fifty seconds apart it removes the first event, keeps the second and leaves another
  identifier alone.
\<close>

theorem getStatus_only_prunes_witness:
  "snd (getStatus defaultRateLimit None 1700000001000 ''u1'' blockedStore) = blockedStore
   \<and> events (windows (snd (getStatus defaultRateLimit None 1700000070000 ''u1'' twoCallsStore)) ''u1'')
       = [((1700000050000, 1), 1700000050000)]
   \<and> windows (snd (getStatus defaultRateLimit None 1700000070000 ''u1'' twoCallsStore)) ''u2''
       = windows twoCallsStore ''u2''"
proof -
  note t1 = getStatus_only_prunes[of blockedStore "''u1''" defaultRateLimit None 1700000001000,
              unfolded Let_def, THEN conjunct1]
  note t2 = getStatus_only_prunes[of twoCallsStore "''u1''" defaultRateLimit None 1700000070000,
              unfolded Let_def]
  have b: "\<not> ttl 1700000001000 (blockExpiry (windows blockedStore ''u1'')) \<le> 0" by code_simp
  from t1 b have c1: "snd (getStatus defaultRateLimit None 1700000001000 ''u1'' blockedStore) = blockedStore"
    by simp
  have i2: "initialized twoCallsStore" by code_simp
  have n2: "ttl 1700000070000 (blockExpiry (windows twoCallsStore ''u1'')) \<le> 0" by code_simp
  have k: "filter (\<lambda>(m, s). \<not> (0 \<le> s \<and> s \<le> 1700000070000 - windowMs defaultRateLimit))
             (liveEvents 1700000070000 (windows twoCallsStore ''u1''))
           = [((1700000050000, 1), 1700000050000)]"
    by code_simp
  from t2[THEN conjunct1] i2 n2
  have "snd (getStatus defaultRateLimit None 1700000070000 ''u1'' twoCallsStore)
          = twoCallsStore\<lparr>windows := (windows twoCallsStore)
              (''u1'' := (windows twoCallsStore ''u1'')
                 \<lparr>events := [((1700000050000, 1), 1700000050000)],
                  eventsExpiry := eventsExpiry (windows twoCallsStore ''u1'')\<rparr>)\<rparr>"
    unfolding k by simp
  then have c2: "events (windows (snd (getStatus defaultRateLimit None 1700000070000 ''u1'' twoCallsStore)) ''u1'')
       = [((1700000050000, 1), 1700000050000)]" by simp
  have neq: "''u2'' \<noteq> ''u1''" by simp
  from t2 neq have c3: "windows (snd (getStatus defaultRateLimit None 1700000070000 ''u1'' twoCallsStore)) ''u2''
     = windows twoCallsStore ''u2''" by simp
  show ?thesis by (rule conjI[OF c1 conjI[OF c2 c3]])
qed

section \<open>C6: isAllowed fails open\<close>

text \<open>
  Claim C6. The client is connected. The store commands of one \<open>isAllowed\<close> call are
  numbered from 0 (TTL, ZREMRANGEBYSCORE, ZCARD, then SETEX and ZRANGE or ZADD and
  EXPIRE); after TTL the others are issued only when TTL reports no block. If the
  command number \<open>k\<close> is issued and rejects, \<open>isAllowed\<close> returns \<open>allowed = true\<close>,
  \<open>blocked = false\<close> and \<open>remaining = maxRequests - 1\<close>. In every case a rejecting
  command either gives this result or was never issued, and then the call goes as if the
  store had answered: an outage never turns an admission into a rejection.
\<close>

theorem isAllowed_fails_open:
  assumes "initialized st"
  shows "(k = 0 \<or> (k < 5 \<and> ttl now (blockExpiry (windows st i)) \<le> 0) \<longrightarrow>
          fst (isAllowed cfg (Some k) now rnd i st) =
            Inr \<lparr>allowed = True, remaining = maxRequests cfg - 1, resetTime = now + windowMs cfg,
                  blocked = False, blockDuration = None\<rparr>)
       \<and> (fst (isAllowed cfg (Some k) now rnd i st) =
            Inr \<lparr>allowed = True, remaining = maxRequests cfg - 1, resetTime = now + windowMs cfg,
                  blocked = False, blockDuration = None\<rparr>
          \<or> isAllowed cfg (Some k) now rnd i st = isAllowed cfg None now rnd i st)"
proof -
  have k5: "k < 5 \<longleftrightarrow> k = 0 \<or> k = 1 \<or> k = 2 \<or> k = 3 \<or> k = 4" by auto
  have tr: "(k = 0 \<or> (k < 5 \<and> ttl now (blockExpiry (windows st i)) \<le> 0) \<longrightarrow>
             (\<exists>e. fst (isAllowed_try cfg (Some k) now rnd (windows st i)) = Inl e))
          \<and> ((\<exists>e. fst (isAllowed_try cfg (Some k) now rnd (windows st i)) = Inl e)
             \<or> isAllowed_try cfg (Some k) now rnd (windows st i)
                 = isAllowed_try cfg None now rnd (windows st i))"
    unfolding k5 by (auto simp: isAllowed_try_def Let_def split: sum.splits)
  show ?thesis
  proof (cases "isAllowed_try cfg (Some k) now rnd (windows st i)")
    case (Pair r w')
    with tr assms show ?thesis
      by (cases r) (auto simp: isAllowed_def failOpen_def)
  qed
qed

theorem isAllowed_fails_open_witness:
  "initialized blockedStore
   \<and> rejectedBlocked (fst (isAllowed defaultRateLimit None 1700000001000 31 ''u1'' blockedStore))
   \<and> fst (isAllowed defaultRateLimit (Some 0) 1700000001000 31 ''u1'' blockedStore)
       = Inr \<lparr>allowed = True, remaining = 29, resetTime = 1700000061000, blocked = False,
              blockDuration = None\<rparr>"
proof -
  have h: "initialized blockedStore" by code_simp
  have r: "rejectedBlocked (fst (isAllowed defaultRateLimit None 1700000001000 31 ''u1'' blockedStore))"
    by code_simp
  from isAllowed_fails_open[OF h, of 0 1700000001000 "''u1''" defaultRateLimit 31]
  have res: "fst (isAllowed defaultRateLimit (Some 0) 1700000001000 31 ''u1'' blockedStore)
       = Inr \<lparr>allowed = True, remaining = 29, resetTime = 1700000061000, blocked = False,
              blockDuration = None\<rparr>"
    by (simp add: defaultRateLimit_def)
  show ?thesis by (rule conjI[OF h conjI[OF r res]])
qed

section \<open>Facts about sendSMS\<close>

lemma isValidPhoneNumber_iff:
  "isValidPhoneNumber s \<longleftrightarrow>
     (\<exists>d1 ds. s = CHR ''+'' # d1 # ds \<and> d1 \<in> set ''123456789'' \<and>
              1 \<le> length ds \<and> length ds \<le> 14 \<and> (\<forall>c \<in> set ds. c \<in> set ''0123456789''))"
  unfolding isValidPhoneNumber_def isDigit_def list_all_iff
  by (cases s; cases "tl s") auto

lemma isAllowed_keeps_client:
  "initialized (snd (isAllowed cfg failAt now rnd i st)) = initialized st"
  by (simp add: isAllowed_def split: prod.splits sum.splits)

lemma isAllowed_Inr_initialized:
  "fst (isAllowed cfg failAt now rnd i st) = Inr d \<Longrightarrow> initialized st"
  by (cases "initialized st") (simp_all add: isAllowed_def)

lemma logSMSDelivery_keeps_client:
  "logSMSDelivery failAt now stamp recipient msg status response err st = (r, st') \<Longrightarrow>
   initialized st' = initialized st"
  by (auto simp: logSMSDelivery_def Let_def split: option.splits if_splits)

lemma logSMSDelivery_returns:
  "initialized st \<Longrightarrow>
   logSMSDelivery failAt now stamp recipient msg status response err st = (r, st') \<Longrightarrow> r = None"
  by (auto simp: logSMSDelivery_def Let_def split: option.splits if_splits)

lemma logSMSDelivery_throws:
  "logSMSDelivery failAt now stamp recipient msg status response err st = (Some e, st') \<Longrightarrow>
   e = RedisNotInitialized"
  by (auto simp: logSMSDelivery_def Let_def split: option.splits if_splits)

lemma isAllowed_keeps_client':
  "isAllowed cfg failAt now rnd i st = (r, st') \<Longrightarrow> initialized st' = initialized st"
  using isAllowed_keeps_client[of cfg failAt now rnd i st] by simp

lemma sendSMS_try_keeps_client:
  "initialized (store (snd (sendSMS_try cfg gw env recipient msg identifier wld)))
     = initialized (store wld)"
  unfolding sendSMS_try_def Let_def
  by (auto split: prod.splits sum.splits gatewayReply.splits option.splits list.splits
        dest!: logSMSDelivery_keeps_client isAllowed_keeps_client')

lemma sendSMS_rethrows:
  assumes "initialized (store wld)"
  shows "fst (sendSMS cfg gw env recipient msg identifier wld)
           = fst (sendSMS_try cfg gw env recipient msg identifier wld)"
proof (cases "sendSMS_try cfg gw env recipient msg identifier wld")
  case (Pair r wld')
  have "initialized (store (snd (sendSMS_try cfg gw env recipient msg identifier wld)))"
    using assms by (simp add: sendSMS_try_keeps_client)
  then have "initialized (store wld')" by (simp add: Pair)
  with Pair show ?thesis
    by (cases r) (auto simp: sendSMS_def split: prod.splits option.splits
                    dest: logSMSDelivery_returns)
qed

lemma sendSMS_try_rate_limited:
  assumes "fst (isAllowed cfg (limiterFault env) (clock env) (random env) identifier (store wld)) = Inr d"
    and "\<not> allowed d"
  shows "fst (sendSMS_try cfg gw env recipient msg identifier wld) = Inl (RateLimitExceeded (blockDuration d))"
    and "outbox (snd (sendSMS_try cfg gw env recipient msg identifier wld)) = outbox wld"
proof -
  obtain st1 where ia: "isAllowed cfg (limiterFault env) (clock env) (random env) identifier (store wld)
                          = (Inr d, st1)"
    using assms(1)
    by (cases "isAllowed cfg (limiterFault env) (clock env) (random env) identifier (store wld)") auto
  show "fst (sendSMS_try cfg gw env recipient msg identifier wld) = Inl (RateLimitExceeded (blockDuration d))"
    unfolding sendSMS_try_def Let_def ia using assms(2) by simp
  show "outbox (snd (sendSMS_try cfg gw env recipient msg identifier wld)) = outbox wld"
    unfolding sendSMS_try_def Let_def ia using assms(2) by simp
qed

lemma sendSMS_try_invalid_phone:
  assumes "fst (isAllowed cfg (limiterFault env) (clock env) (random env) identifier (store wld)) = Inr d"
    and "allowed d"
  shows "fst (sendSMS_try cfg gw env recipient msg identifier wld) = Inl InvalidPhoneNumber
           \<longleftrightarrow> \<not> isValidPhoneNumber (toText recipient)"
proof -
  obtain st1 where ia: "isAllowed cfg (limiterFault env) (clock env) (random env) identifier (store wld)
                          = (Inr d, st1)"
    using assms(1)
    by (cases "isAllowed cfg (limiterFault env) (clock env) (random env) identifier (store wld)") auto
  have init: "initialized st1"
    using isAllowed_keeps_client'[OF ia] isAllowed_Inr_initialized[OF assms(1)] by simp
  show ?thesis
  proof (cases "isValidPhoneNumber (toText recipient)")
    case False
    then show ?thesis unfolding sendSMS_try_def Let_def ia using assms(2) by simp
  next
    case True
    have "fst (sendSMS_try cfg gw env recipient msg identifier wld) \<noteq> Inl InvalidPhoneNumber"
      unfolding sendSMS_try_def Let_def ia using assms(2) True init
      by (auto split: gatewayReply.splits option.splits list.splits prod.splits
            dest!: logSMSDelivery_throws)
    with True show ?thesis by simp
  qed
qed

lemma sendSMS_outbox:
  "outbox (snd (sendSMS cfg gw env recipient msg i wld))
     = outbox (snd (sendSMS_try cfg gw env recipient msg i wld))"
  by (simp add: sendSMS_def split: prod.splits sum.splits option.splits)

lemma sendSMS_not_connected:
  assumes "fst (isAllowed cfg (limiterFault env) (clock env) (random env) i (store wld)) = Inl e"
  shows "fst (sendSMS cfg gw env recipient msg i wld) = Inl RedisNotInitialized"
proof -
  have ni: "\<not> initialized (store wld)"
    using assms by (cases "initialized (store wld)") (auto simp: isAllowed_def split: prod.splits sum.splits)
  then have ia: "isAllowed cfg (limiterFault env) (clock env) (random env) i (store wld)
                   = (Inl RedisNotInitialized, store wld)"
    by (simp add: isAllowed_def)
  show ?thesis
    unfolding sendSMS_def sendSMS_try_def ia using ni
    by (simp add: logSMSDelivery_def)
qed

lemma rateLimit_message_marked: "sublist ''Rate limit exceeded'' (message (RateLimitExceeded duration))"
proof -
  have "message (RateLimitExceeded duration) =
          ''Rate limit exceeded'' @ (''. Blocked for '' @
            (case duration of None \<Rightarrow> ''NaN'' | Some ms \<Rightarrow> showInt (ceilSeconds ms)) @ '' seconds'')"
    by simp
  then show ?thesis by (simp only: sublist_append_rightI)
qed

lemma shouldRetry_iff:
  "shouldRetry e \<longleftrightarrow>
     \<not> (sublist ''Rate limit exceeded'' (message e) \<or>
        sublist ''Invalid phone number format'' (message e) \<or>
        sublist ''Message cannot be empty'' (message e) \<or>
        sublist ''Non-retryable error'' (message e))"
  by (simp add: shouldRetry_def nonRetryableErrors_def)

lemma shouldRetry_own_errors:
  "\<not> shouldRetry (RateLimitExceeded duration)" "\<not> shouldRetry InvalidPhoneNumber"
  "\<not> shouldRetry EmptyMessage"
  using rateLimit_message_marked[of duration] by (simp_all add: shouldRetry_iff)
section \<open>C10: the recipient pattern\<close>

text \<open>
  Claim C10. \<open>sendSMS\<close> throws the error of its phone validation exactly when the
  rate-limit check has returned an allowed decision and the recipient is not a plus sign,
  a digit from 1 to 9 and then 1 to 14 further digits. When the limiter rejects, the
  error is the rate-limit error whatever the recipient is; so the validation comes only
  after the rate-limit check has passed, and a matching recipient passes it.
\<close>

theorem sendSMS_phone_validation:
  "(fst (sendSMS cfg gw env recipient msg i wld) = Inl InvalidPhoneNumber
      \<longleftrightarrow> admitted (fst (isAllowed cfg (limiterFault env) (clock env) (random env) i (store wld)))
          \<and> \<not> (\<exists>d1 ds. toText recipient = CHR ''+'' # d1 # ds \<and> d1 \<in> set ''123456789'' \<and>
                  1 \<le> length ds \<and> length ds \<le> 14 \<and> (\<forall>c \<in> set ds. c \<in> set ''0123456789'')))
   \<and> (\<forall>d. fst (isAllowed cfg (limiterFault env) (clock env) (random env) i (store wld)) = Inr d
            \<and> \<not> allowed d
          \<longrightarrow> fst (sendSMS cfg gw env recipient msg i wld) = Inl (RateLimitExceeded (blockDuration d)))"
proof (cases "fst (isAllowed cfg (limiterFault env) (clock env) (random env) i (store wld))")
  case (Inl e)
  from sendSMS_not_connected[OF Inl] Inl show ?thesis by (simp add: admitted_def)
next
  case (Inr d)
  have init: "initialized (store wld)" using isAllowed_Inr_initialized[OF Inr] .
  note same = sendSMS_rethrows[OF init, of cfg gw env recipient msg i]
  show ?thesis
  proof (cases "allowed d")
    case True
    from sendSMS_try_invalid_phone[OF Inr True, of gw recipient msg] Inr True show ?thesis
      by (simp add: same admitted_def isValidPhoneNumber_iff)
  next
    case False
    from sendSMS_try_rate_limited(1)[OF Inr False, of gw recipient msg] Inr False show ?thesis
      by (simp add: same admitted_def)
  qed
qed

theorem sendSMS_phone_validation_witness:
  "fst (sendSMS defaultRateLimit acceptingGateway sampleEnv (Some ''0712345678'') (Some ''Hello'') ''u1''
          sampleWorld) = Inl InvalidPhoneNumber
   \<and> fst (sendSMS defaultRateLimit acceptingGateway sampleEnv (Some ''+254712345678'') (Some ''Hello'') ''u1''
          sampleWorld) \<noteq> Inl InvalidPhoneNumber
   \<and> fst (sendSMS defaultRateLimit acceptingGateway sampleEnv (Some ''0712345678'') (Some ''Hello'') ''u1''
          blockedWorld) = Inl (RateLimitExceeded (Some 299000))"
proof -
  have adm: "admitted (fst (isAllowed defaultRateLimit (limiterFault sampleEnv) (clock sampleEnv)
                              (random sampleEnv) ''u1'' (store sampleWorld)))"
    by code_simp
  have bad: "\<not> isValidPhoneNumber (toText (Some ''0712345678''))" by code_simp
  have good: "isValidPhoneNumber (toText (Some ''+254712345678''))" by code_simp
  have rej: "fst (isAllowed defaultRateLimit (limiterFault sampleEnv) (clock sampleEnv)
                              (random sampleEnv) ''u1'' (store blockedWorld))
               = Inr \<lparr>allowed = False, remaining = 0, resetTime = 1700000300500, blocked = True,
                      blockDuration = Some 299000\<rparr>"
    by code_simp
  note t1 = sendSMS_phone_validation[of defaultRateLimit acceptingGateway sampleEnv "Some ''0712345678''"
              "Some ''Hello''" "''u1''" sampleWorld, folded isValidPhoneNumber_iff]
  note t2 = sendSMS_phone_validation[of defaultRateLimit acceptingGateway sampleEnv "Some ''+254712345678''"
              "Some ''Hello''" "''u1''" sampleWorld, folded isValidPhoneNumber_iff]
  note t3 = sendSMS_phone_validation[of defaultRateLimit acceptingGateway sampleEnv "Some ''0712345678''"
              "Some ''Hello''" "''u1''" blockedWorld]
  from t1 adm bad have c1: "fst (sendSMS defaultRateLimit acceptingGateway sampleEnv (Some ''0712345678'')
          (Some ''Hello'') ''u1'' sampleWorld) = Inl InvalidPhoneNumber" by simp
  from t2 good have c2: "fst (sendSMS defaultRateLimit acceptingGateway sampleEnv (Some ''+254712345678'')
          (Some ''Hello'') ''u1'' sampleWorld) \<noteq> Inl InvalidPhoneNumber" by simp
  from t3 rej have c3: "fst (sendSMS defaultRateLimit acceptingGateway sampleEnv (Some ''0712345678'')
          (Some ''Hello'') ''u1'' blockedWorld) = Inl (RateLimitExceeded (Some 299000))" by simp
  show ?thesis by (rule conjI[OF c1 conjI[OF c2 c3]])
qed
section \<open>Facts about processSMSJob\<close>

lemma processSMSJob_world:
  "snd (processSMSJob cfg gw env api d wld)
     = snd (sendSMS cfg gw env (dataTo d) (dataMessage d)
              (case dataIdentifier d of None \<Rightarrow> ''default'' | Some i \<Rightarrow> i) wld)"
  by (simp add: processSMSJob_def split: prod.splits sum.splits option.splits)

lemma processSMSJob_failure:
  "fst (sendSMS cfg gw env (dataTo d) (dataMessage d)
          (case dataIdentifier d of None \<Rightarrow> ''default'' | Some i \<Rightarrow> i) wld) = Inl e \<Longrightarrow>
   fst (processSMSJob cfg gw env api d wld)
     = Inl (case updateProgressError api of
              Some m \<Rightarrow> JobApiError m
            | None \<Rightarrow> (case addResultError api of
                         Some m \<Rightarrow> JobApiError m
                       | None \<Rightarrow> if shouldRetry e then e else NonRetryable (message e)))"
  by (auto simp: processSMSJob_def processSMSJob_catch_def recordOutcome_def
        split: prod.splits sum.splits option.splits)

section \<open>C3: the retry classifier\<close>

text \<open>
  C3 as stated fails: the classifier looks only at the message. A gateway failure whose
  message contains one of the marker phrases, here the gateway's own throttling error
  as \<open>sendSMS\<close> throws it, is classified non-retryable.
\<close>

theorem shouldRetry_rejects_gateway_error:
  "fst (sendSMS defaultRateLimit throttlingGateway sampleEnv (Some ''+254712345678'') (Some ''Hello'')
          ''u1'' sampleWorld)
     = Inl (GatewayError ''Request failed: Rate limit exceeded (429)'')
   \<and> \<not> shouldRetry (GatewayError ''Request failed: Rate limit exceeded (429)'')"
  by code_simp

text \<open>
  Claim C3, as the code has it. \<open>shouldRetry\<close> marks an error non-retryable exactly when
  its message contains \<open>Rate limit exceeded\<close>, \<open>Invalid phone number format\<close>,
  \<open>Message cannot be empty\<close> or \<open>Non-retryable error\<close>. The rate-limit rejection and the
  two validation failures of \<open>sendSMS\<close> carry such a phrase and are non-retryable. When
  \<open>sendSMS\<close> fails, \<open>processSMSJob\<close> first calls \<^verbatim>\<open>job.updateProgress\<close> and
  \<^verbatim>\<open>job.addResult\<close>: if one of them throws, its error leaves \<open>processSMSJob\<close>, whatever the
  classifier would say; if both succeed, the error of \<open>sendSMS\<close> is thrown again unchanged
  when it is retryable and as \<open>Non-retryable error: ...\<close> otherwise. Every job is queued
  with \<open>attempts = maxAttempts\<close>.
\<close>

theorem shouldRetry_classifies_by_message:
  "(shouldRetry e \<longleftrightarrow>
      \<not> (sublist ''Rate limit exceeded'' (message e) \<or>
         sublist ''Invalid phone number format'' (message e) \<or>
         sublist ''Message cannot be empty'' (message e) \<or>
         sublist ''Non-retryable error'' (message e)))
   \<and> \<not> shouldRetry (RateLimitExceeded duration)
   \<and> \<not> shouldRetry InvalidPhoneNumber
   \<and> \<not> shouldRetry EmptyMessage
   \<and> (fst (sendSMS cfg gw env (dataTo d) (dataMessage d)
              (case dataIdentifier d of None \<Rightarrow> ''default'' | Some i \<Rightarrow> i) wld) = Inl e
        \<longrightarrow> fst (processSMSJob cfg gw env api d wld)
              = Inl (case updateProgressError api of
                       Some m \<Rightarrow> JobApiError m
                     | None \<Rightarrow> (case addResultError api of
                                  Some m \<Rightarrow> JobApiError m
                                | None \<Rightarrow> if shouldRetry e then e else NonRetryable (message e))))
   \<and> (fst (addSMSJob faults rcfg d' options q) = Inr j \<longrightarrow> attempts (jobOpts j) = maxAttempts rcfg)"
proof -
  have a: "fst (addSMSJob faults rcfg d' options q) = Inr j \<longrightarrow> attempts (jobOpts j) = maxAttempts rcfg"
    by (auto simp: addSMSJob_def queueAdd_def Let_def split: option.splits)
  have p: "fst (sendSMS cfg gw env (dataTo d) (dataMessage d)
              (case dataIdentifier d of None \<Rightarrow> ''default'' | Some i \<Rightarrow> i) wld) = Inl e
        \<longrightarrow> fst (processSMSJob cfg gw env api d wld)
              = Inl (case updateProgressError api of
                       Some m \<Rightarrow> JobApiError m
                     | None \<Rightarrow> (case addResultError api of
                                  Some m \<Rightarrow> JobApiError m
                                | None \<Rightarrow> if shouldRetry e then e else NonRetryable (message e)))"
    using processSMSJob_failure by blast
  show ?thesis
    by (intro conjI) (rule shouldRetry_iff shouldRetry_own_errors p a)+
qed

theorem shouldRetry_classifies_by_message_witness:
  "fst (processSMSJob defaultRateLimit droppingGateway sampleEnv jobApiOk sampleData sampleWorld)
     = Inl (GatewayError ''socket hang up'')
   \<and> fst (processSMSJob defaultRateLimit droppingGateway sampleEnv jobApiNoAddResult sampleData
            sampleWorld)
     = Inl (JobApiError ''job.addResult is not a function'')
   \<and> shouldRetry (GatewayError ''socket hang up'')
   \<and> \<not> shouldRetry InvalidPhoneNumber"
proof -
  have s: "fst (sendSMS defaultRateLimit droppingGateway sampleEnv (dataTo sampleData)
                 (dataMessage sampleData)
                 (case dataIdentifier sampleData of None \<Rightarrow> ''default'' | Some i \<Rightarrow> i) sampleWorld)
             = Inl (GatewayError ''socket hang up'')"
    by code_simp
  have r: "shouldRetry (GatewayError ''socket hang up'')" by code_simp
  note t = shouldRetry_classifies_by_message[where e = "GatewayError ''socket hang up''"
             and cfg = defaultRateLimit and gw = droppingGateway and env = sampleEnv
             and d = sampleData and wld = sampleWorld]
  note imp1 = t[where api = jobApiOk,
                THEN conjunct2, THEN conjunct2, THEN conjunct2, THEN conjunct2, THEN conjunct1]
  note imp2 = t[where api = jobApiNoAddResult,
                THEN conjunct2, THEN conjunct2, THEN conjunct2, THEN conjunct2, THEN conjunct1]
  from mp[OF imp1 s] r
  have c1: "fst (processSMSJob defaultRateLimit droppingGateway sampleEnv jobApiOk
                   sampleData sampleWorld) = Inl (GatewayError ''socket hang up'')"
    by (simp add: jobApiOk_def)
  from mp[OF imp2 s]
  have c2: "fst (processSMSJob defaultRateLimit droppingGateway sampleEnv jobApiNoAddResult
                   sampleData sampleWorld) = Inl (JobApiError ''job.addResult is not a function'')"
    by (simp add: jobApiNoAddResult_def)
  note c3 = t[THEN conjunct2, THEN conjunct2, THEN conjunct1]
  show ?thesis by (rule conjI[OF c1 conjI[OF c2 conjI[OF r c3]]])
qed

section \<open>Facts about the queue\<close>

lemma addSMSJob_cases:
  "addSMSJob faults rcfg d options q = (r, q1) \<Longrightarrow>
   addCalls q1 = Suc (addCalls q) \<and>
   (case r of
      Inr j \<Rightarrow> faults (addCalls q) = None \<and> jobs q1 = jobs q @ [j] \<and> jobData j = d
    | Inl e \<Rightarrow> faults (addCalls q) \<noteq> None \<and> jobs q1 = jobs q)"
  by (auto simp: addSMSJob_def queueAdd_def Let_def split: option.splits)

lemma addBulkSMSJobs_results:
  "addBulkSMSJobs faults rcfg messages options q = (results, q') \<Longrightarrow>
   map resultData results = messages \<and>
   map success results = map (\<lambda>k. faults (addCalls q + k) = None) [0..<length messages] \<and>
   map jobData (jobs q') = map jobData (jobs q) @ map resultData (filter success results)"
proof (induction messages arbitrary: q results q')
  case Nil
  then show ?case by simp
next
  case (Cons d ds)
  obtain r q1 where a: "addSMSJob faults rcfg d options q = (r, q1)"
    by (cases "addSMSJob faults rcfg d options q")
  obtain rs q2 where b: "addBulkSMSJobs faults rcfg ds options q1 = (rs, q2)"
    by (cases "addBulkSMSJobs faults rcfg ds options q1")
  note ih = Cons.IH[OF b]
  note ac = addSMSJob_cases[OF a]
  have shift: "map (\<lambda>k. faults (addCalls q + k) = None) [0..<length (d # ds)]
      = (faults (addCalls q) = None) # map (\<lambda>k. faults (addCalls q1 + k) = None) [0..<length ds]"
    using ac by (simp add: map_upt_Suc del: upt_Suc)
  show ?case
  proof (cases r)
    case (Inl e)
    with Cons.prems a b have res: "results =
        \<lparr>resultData = d, resultJobId = None, resultError = Some (message e), success = False\<rparr> # rs"
      and q': "q' = q2" by auto
    from ac Inl have f: "faults (addCalls q) \<noteq> None" "jobs q1 = jobs q" by auto
    show ?thesis unfolding shift res q' using ih f by simp
  next
    case (Inr j)
    with Cons.prems a b have res: "results =
        \<lparr>resultData = d, resultJobId = Some (jobId j), resultError = None, success = True\<rparr> # rs"
      and q': "q' = q2" by auto
    from ac Inr have f: "faults (addCalls q) = None" "jobs q1 = jobs q @ [j]" "jobData j = d" by auto
    show ?thesis unfolding shift res q' using ih f by simp
  qed
qed
section \<open>C2: where the admission check runs\<close>

text \<open>
  C2 as stated fails: the handler of \<^verbatim>\<open>POST /sms/send\<close> does not consult the limiter.
  For the identifier \<open>u1\<close>, blocked after the burst, \<open>isAllowed\<close> rejects at
  1700000001500, and a request for \<open>u1\<close> becomes a job of the queue: the answer is 202
  when \<^verbatim>\<open>job.getQueuePosition()\<close> returns and 500 when it throws, and the job is
  queued in both cases.
\<close>

theorem api_sendSMS_enqueues_blocked_identifier:
  "rejectedBlocked (fst (isAllowed defaultRateLimit None 1700000001500 31 ''u1'' blockedStore))
   \<and> fst (api_sendSMS noFaults defaultRetry (Inr 1) sampleRequest emptyQueue) = SendAccepted 1 1
   \<and> map jobData (jobs (snd (api_sendSMS noFaults defaultRetry (Inr 1) sampleRequest emptyQueue)))
       = [sampleData]
   \<and> fst (api_sendSMS noFaults defaultRetry (Inl ''job.getQueuePosition is not a function'')
            sampleRequest emptyQueue)
       = SendServerError ''Failed to queue SMS'' ''job.getQueuePosition is not a function''
   \<and> map jobData (jobs (snd (api_sendSMS noFaults defaultRetry
                               (Inl ''job.getQueuePosition is not a function'') sampleRequest emptyQueue)))
       = [sampleData]"
  by code_simp

text \<open>
  Claim C2, as the code has it. A send request is not evaluated by the limiter before it
  is queued: the handler queues every request that has a recipient and a message, when
  \<^verbatim>\<open>queue.add\<close> takes it, whatever it then answers. The limiter is evaluated when the
  worker processes the job. For a job that the limiter rejects, \<open>sendSMS\<close> throws the
  rate-limit error, which the classifier marks non-retryable, and nothing is handed to the
  gateway; \<open>processSMSJob\<close> then throws the error of \<^verbatim>\<open>job.updateProgress\<close> or
  \<^verbatim>\<open>job.addResult\<close> if one of them throws, and otherwise the rate-limit error in its
  non-retryable form.
\<close>

theorem admission_checked_at_dispatch:
  "(\<not> falsy (reqTo req) \<and> \<not> falsy (reqMessage req) \<and> faults (addCalls q) = None \<longrightarrow>
      (\<exists>j. jobs (snd (api_sendSMS faults rcfg position req q)) = jobs q @ [j] \<and>
           dataTo (jobData j) = reqTo req \<and> dataMessage (jobData j) = reqMessage req))
   \<and> (\<forall>dec. fst (isAllowed cfg (limiterFault env) (clock env) (random env)
                    (case dataIdentifier d of None \<Rightarrow> ''default'' | Some i \<Rightarrow> i) (store wld)) = Inr dec
             \<and> \<not> allowed dec \<longrightarrow>
          fst (sendSMS cfg gw env (dataTo d) (dataMessage d)
                 (case dataIdentifier d of None \<Rightarrow> ''default'' | Some i \<Rightarrow> i) wld)
            = Inl (RateLimitExceeded (blockDuration dec)) \<and>
          \<not> shouldRetry (RateLimitExceeded (blockDuration dec)) \<and>
          fst (processSMSJob cfg gw env api d wld)
            = Inl (case updateProgressError api of
                     Some m \<Rightarrow> JobApiError m
                   | None \<Rightarrow> (case addResultError api of
                                Some m \<Rightarrow> JobApiError m
                              | None \<Rightarrow> NonRetryable (message (RateLimitExceeded (blockDuration dec))))) \<and>
          outbox (snd (processSMSJob cfg gw env api d wld)) = outbox wld)"
proof (intro conjI impI allI)
  assume "\<not> falsy (reqTo req) \<and> \<not> falsy (reqMessage req) \<and> faults (addCalls q) = None"
  then show "\<exists>j. jobs (snd (api_sendSMS faults rcfg position req q)) = jobs q @ [j] \<and>
           dataTo (jobData j) = reqTo req \<and> dataMessage (jobData j) = reqMessage req"
    by (cases position) (simp_all add: api_sendSMS_def addSMSJob_def queueAdd_def Let_def)
next
  fix dec
  let ?i = "case dataIdentifier d of None \<Rightarrow> ''default'' | Some i \<Rightarrow> i"
  assume "fst (isAllowed cfg (limiterFault env) (clock env) (random env) ?i (store wld)) = Inr dec
            \<and> \<not> allowed dec"
  then have a: "fst (isAllowed cfg (limiterFault env) (clock env) (random env) ?i (store wld)) = Inr dec"
    and na: "\<not> allowed dec" by simp_all
  have init: "initialized (store wld)" using isAllowed_Inr_initialized[OF a] .
  show s: "fst (sendSMS cfg gw env (dataTo d) (dataMessage d) ?i wld)
             = Inl (RateLimitExceeded (blockDuration dec))"
    using sendSMS_try_rate_limited(1)[OF a na] sendSMS_rethrows[OF init] by simp
  show "\<not> shouldRetry (RateLimitExceeded (blockDuration dec))"
    by (rule shouldRetry_own_errors(1))
  show "fst (processSMSJob cfg gw env api d wld)
          = Inl (case updateProgressError api of
                   Some m \<Rightarrow> JobApiError m
                 | None \<Rightarrow> (case addResultError api of
                              Some m \<Rightarrow> JobApiError m
                            | None \<Rightarrow> NonRetryable (message (RateLimitExceeded (blockDuration dec)))))"
    using processSMSJob_failure[OF s, of api] shouldRetry_own_errors(1)[of "blockDuration dec"]
    by (simp split: option.splits)
  show "outbox (snd (processSMSJob cfg gw env api d wld)) = outbox wld"
    using sendSMS_try_rate_limited(2)[OF a na] by (simp add: processSMSJob_world sendSMS_outbox)
qed

theorem admission_checked_at_dispatch_witness:
  "(\<exists>j. jobs (snd (api_sendSMS noFaults defaultRetry (Inl ''job.getQueuePosition is not a function'')
                     sampleRequest emptyQueue)) = [j] \<and>
        dataTo (jobData j) = Some ''+254712345678'' \<and> dataMessage (jobData j) = Some ''Hello'')
   \<and> fst (processSMSJob defaultRateLimit acceptingGateway sampleEnv jobApiOk sampleData blockedWorld)
       = Inl (NonRetryable ''Rate limit exceeded. Blocked for 299 seconds'')
   \<and> fst (processSMSJob defaultRateLimit acceptingGateway sampleEnv jobApiNoAddResult sampleData
            blockedWorld)
       = Inl (JobApiError ''job.addResult is not a function'')
   \<and> outbox (snd (processSMSJob defaultRateLimit acceptingGateway sampleEnv jobApiNoAddResult sampleData
                    blockedWorld)) = []"
proof -
  note t = admission_checked_at_dispatch[where req = sampleRequest and faults = noFaults
             and q = emptyQueue and rcfg = defaultRetry
             and position = "Inl ''job.getQueuePosition is not a function''"
             and cfg = defaultRateLimit and env = sampleEnv and d = sampleData
             and wld = blockedWorld and gw = acceptingGateway]
  have h1: "\<not> falsy (reqTo sampleRequest) \<and> \<not> falsy (reqMessage sampleRequest)
            \<and> noFaults (addCalls emptyQueue) = None"
    by code_simp
  have h2: "fst (isAllowed defaultRateLimit (limiterFault sampleEnv) (clock sampleEnv) (random sampleEnv)
                  (case dataIdentifier sampleData of None \<Rightarrow> ''default'' | Some i \<Rightarrow> i)
                  (store blockedWorld))
              = Inr \<lparr>allowed = False, remaining = 0, resetTime = 1700000300500, blocked = True,
                     blockDuration = Some 299000\<rparr>
            \<and> \<not> allowed \<lparr>allowed = False, remaining = 0, resetTime = 1700000300500, blocked = True,
                     blockDuration = Some 299000\<rparr>"
    by code_simp
  have m: "message (RateLimitExceeded (Some 299000)) = ''Rate limit exceeded. Blocked for 299 seconds''"
    by code_simp
  have e: "jobs emptyQueue = []" "reqTo sampleRequest = Some ''+254712345678''"
    "reqMessage sampleRequest = Some ''Hello''" "outbox blockedWorld = []"
    by (simp_all add: emptyQueue_def sampleRequest_def blockedWorld_def)
  from mp[OF t[where api = jobApiOk, THEN conjunct1] h1]
  have c1: "\<exists>j. jobs (snd (api_sendSMS noFaults defaultRetry (Inl ''job.getQueuePosition is not a function'')
                     sampleRequest emptyQueue)) = [j] \<and>
        dataTo (jobData j) = Some ''+254712345678'' \<and> dataMessage (jobData j) = Some ''Hello''"
    by (simp add: e)
  note d1 = mp[OF spec[OF t[where api = jobApiOk, THEN conjunct2]] h2]
  note d2 = mp[OF spec[OF t[where api = jobApiNoAddResult, THEN conjunct2]] h2]
  from d1 have c2: "fst (processSMSJob defaultRateLimit acceptingGateway sampleEnv jobApiOk sampleData
                          blockedWorld)
       = Inl (NonRetryable ''Rate limit exceeded. Blocked for 299 seconds'')"
    by (simp add: jobApiOk_def m[simplified])
  from d2 have c3: "fst (processSMSJob defaultRateLimit acceptingGateway sampleEnv jobApiNoAddResult
                          sampleData blockedWorld)
       = Inl (JobApiError ''job.addResult is not a function'')"
    by (simp add: jobApiNoAddResult_def)
  from d2 have c4: "outbox (snd (processSMSJob defaultRateLimit acceptingGateway sampleEnv
                                  jobApiNoAddResult sampleData blockedWorld)) = []"
    by (simp add: e)
  show ?thesis by (rule conjI[OF c1 conjI[OF c2 conjI[OF c3 c4]]])
qed

section \<open>C7: bulk submission\<close>

text \<open>
  C7 as stated fails for an invalid item: the handler of \<^verbatim>\<open>POST /sms/bulk\<close> checks
  every item before it queues any, and one item without recipient makes it reject the
  whole batch. Nothing is queued for the two valid items.
\<close>

theorem api_sendBulkSMS_rejects_whole_batch:
  "api_sendBulkSMS noFaults defaultRetry
     \<lparr>reqMessages = Some brokenBatch, bulkIdentifier = Some ''campaign'', bulkPriority = None\<rparr>
     emptyQueue
   = (BulkBadRequest ''Each message must contain to and message fields'', emptyQueue)"
  by code_simp

text \<open>
  Claim C7, as the code has it. \<open>addBulkSMSJobs\<close> returns one result per item, in the
  order of the batch, each carrying its item; the result of item \<open>k\<close> is a success
  exactly when the \<open>k\<close>-th call of \<^verbatim>\<open>queue.add\<close> did not fail, and the items queued are
  the successful ones, in order: a failure for one item neither stops nor undoes the
  others. The handler passes a batch on when every item has a recipient and a message,
  and answers with these results; when some item lacks one of them it rejects the whole
  batch and queues nothing.
\<close>

theorem addBulkSMSJobs_per_item:
  "(case addBulkSMSJobs faults rcfg messages options q of
      (results, q') \<Rightarrow>
        map resultData results = messages \<and>
        map success results = map (\<lambda>k. faults (addCalls q + k) = None) [0..<length messages] \<and>
        map jobData (jobs q') = map jobData (jobs q) @ map resultData (filter success results))
   \<and> (reqMessages req = Some messages \<and> messages \<noteq> [] \<and>
       list_all (\<lambda>m. \<not> falsy (dataTo m) \<and> \<not> falsy (dataMessage m)) messages \<longrightarrow>
        (\<exists>results q'.
           api_sendBulkSMS faults rcfg req q
             = (BulkAccepted (length messages) (length (filter success results))
                  (length (filter (\<lambda>r. \<not> success r) results)) results, q') \<and>
           map resultData results = messages \<and>
           map success results = map (\<lambda>k. faults (addCalls q + k) = None) [0..<length messages] \<and>
           map jobData (jobs q') = map jobData (jobs q) @ map resultData (filter success results)))
   \<and> (reqMessages req = Some messages \<and>
       list_ex (\<lambda>m. falsy (dataTo m) \<or> falsy (dataMessage m)) messages \<longrightarrow>
        api_sendBulkSMS faults rcfg req q
          = (BulkBadRequest ''Each message must contain to and message fields'', q))"
proof (intro conjI impI)
  show "case addBulkSMSJobs faults rcfg messages options q of
      (results, q') \<Rightarrow>
        map resultData results = messages \<and>
        map success results = map (\<lambda>k. faults (addCalls q + k) = None) [0..<length messages] \<and>
        map jobData (jobs q') = map jobData (jobs q) @ map resultData (filter success results)"
    using addBulkSMSJobs_results[of faults rcfg messages options q]
    by (cases "addBulkSMSJobs faults rcfg messages options q") simp
next
  assume h: "reqMessages req = Some messages \<and> messages \<noteq> [] \<and>
       list_all (\<lambda>m. \<not> falsy (dataTo m) \<and> \<not> falsy (dataMessage m)) messages"
  let ?opts = "\<lparr>optPriority = Some (case bulkPriority req of None \<Rightarrow> 0 | Some p \<Rightarrow> p),
                optDelay = None,
                optIdentifier = Some (if falsy (bulkIdentifier req) then ''bulk-api''
                                      else toText (bulkIdentifier req))\<rparr>"
  obtain results q' where b: "addBulkSMSJobs faults rcfg messages ?opts q = (results, q')"
    by (cases "addBulkSMSJobs faults rcfg messages ?opts q")
  from h have nex: "\<not> list_ex (\<lambda>m. falsy (dataTo m) \<or> falsy (dataMessage m)) messages"
    by (auto simp: list_all_iff list_ex_iff)
  have "api_sendBulkSMS faults rcfg req q
             = (BulkAccepted (length messages) (length (filter success results))
                  (length (filter (\<lambda>r. \<not> success r) results)) results, q')"
    using h nex b by (simp add: api_sendBulkSMS_def)
  with addBulkSMSJobs_results[OF b]
  show "\<exists>results q'.
           api_sendBulkSMS faults rcfg req q
             = (BulkAccepted (length messages) (length (filter success results))
                  (length (filter (\<lambda>r. \<not> success r) results)) results, q') \<and>
           map resultData results = messages \<and>
           map success results = map (\<lambda>k. faults (addCalls q + k) = None) [0..<length messages] \<and>
           map jobData (jobs q') = map jobData (jobs q) @ map resultData (filter success results)"
    by blast
next
  assume h: "reqMessages req = Some messages \<and>
       list_ex (\<lambda>m. falsy (dataTo m) \<or> falsy (dataMessage m)) messages"
  then have "messages \<noteq> []" by auto
  with h show "api_sendBulkSMS faults rcfg req q
          = (BulkBadRequest ''Each message must contain to and message fields'', q)"
    by (simp add: api_sendBulkSMS_def)
qed

theorem addBulkSMSJobs_per_item_witness:
  "(\<exists>results q'.
      api_sendBulkSMS secondAddFails defaultRetry
        \<lparr>reqMessages = Some sampleBatch, bulkIdentifier = Some ''campaign'', bulkPriority = None\<rparr>
        emptyQueue = (BulkAccepted 3 (length (filter success results))
                        (length (filter (\<lambda>r. \<not> success r) results)) results, q') \<and>
      map resultData results = sampleBatch \<and>
      map success results = [True, False, True] \<and>
      map jobData (jobs q') = map resultData (filter success results))"
proof -
  let ?req = "\<lparr>reqMessages = Some sampleBatch, bulkIdentifier = Some ''campaign'', bulkPriority = None\<rparr>"
  note t = addBulkSMSJobs_per_item[where faults = secondAddFails and rcfg = defaultRetry
             and messages = sampleBatch and q = emptyQueue and req = ?req
             and options = "\<lparr>optPriority = None, optDelay = None, optIdentifier = None\<rparr>"]
  have h: "reqMessages ?req = Some sampleBatch \<and> sampleBatch \<noteq> [] \<and>
       list_all (\<lambda>m. \<not> falsy (dataTo m) \<and> \<not> falsy (dataMessage m)) sampleBatch"
    by code_simp
  have v: "map (\<lambda>k. secondAddFails (addCalls emptyQueue + k) = None) [0..<3]
             = [True, False, True]"
    by code_simp
  have l: "length sampleBatch = 3" "map jobData (jobs emptyQueue) = []"
    by (simp_all add: sampleBatch_def emptyQueue_def)
  from mp[OF t[THEN conjunct2, THEN conjunct1] h] have "\<exists>results q'.
      api_sendBulkSMS secondAddFails defaultRetry ?req emptyQueue
        = (BulkAccepted (length sampleBatch) (length (filter success results))
             (length (filter (\<lambda>r. \<not> success r) results)) results, q') \<and>
      map resultData results = sampleBatch \<and>
      map success results
        = map (\<lambda>k. secondAddFails (addCalls emptyQueue + k) = None) [0..<length sampleBatch] \<and>
      map jobData (jobs q') = map jobData (jobs emptyQueue) @ map resultData (filter success results)"
    .
  then show ?thesis unfolding l v by simp
qed
section \<open>C8: the recipient in the delivery log\<close>

text \<open>
  Claim C8 against the code: \<open>logSMSDelivery\<close> stores the recipient as it is given. After
  a successful \<open>sendSMS\<close> to +254712345678 the entry pushed on \<^verbatim>\<open>sms_delivery_logs\<close>
  and the entry pushed on the daily list both hold the full number.
\<close>

theorem logSMSDelivery_stores_full_recipient:
  "map logTo (deliveryLogs (store (snd (sendSMS defaultRateLimit acceptingGateway sampleEnv
       (Some ''+254712345678'') (Some ''Hello'') ''u1'' sampleWorld)))) = [Some ''+254712345678'']
   \<and> map logTo (fst (dailyLogs (store (snd (sendSMS defaultRateLimit acceptingGateway sampleEnv
       (Some ''+254712345678'') (Some ''Hello'') ''u1'' sampleWorld))) ''2023-11-14''))
     = [Some ''+254712345678'']"
  by code_simp

end
